theory Spec2Isabelle
  imports Main
begin

section \<open>JavaScript values\<close>

text \<open>
  Request bodies, job payloads, parsed LLM answers and WordPress responses are all
  untyped at run time (\<^verbatim>\<open>req.body\<close>, \<^verbatim>\<open>job.data\<close> and \<^verbatim>\<open>response.data\<close> are
  \<^verbatim>\<open>any\<close>), so they are embedded as one datatype of JSON-like values.  Numbers are the
  integral ones (\<open>JNum\<close>) and \<open>JNaN\<close>; fractional numbers and infinities are not
  represented.  Strings are lists of 8-bit characters.
\<close>

datatype js =
    JUndefined
  | JNull
  | JBool bool
  | JNum int
  | JNaN
  | JStr string
  | JArr "js list"
  | JObj "(string \<times> js) list"

datatype error =
    TypeError string
  | SyntaxError string
  | RangeError string
  | RemoteError string

fun message :: "error \<Rightarrow> string" where
  "message (TypeError m) = m"
| "message (SyntaxError m) = m"
| "message (RangeError m) = m"
| "message (RemoteError m) = m"

text \<open>Sequencing of calls that may throw: the first exception ends the computation.\<close>

definition andThen :: "error + 'a \<Rightarrow> ('a \<Rightarrow> error + 'b) \<Rightarrow> error + 'b" where
  "andThen m f = (case m of Inl e \<Rightarrow> Inl e | Inr x \<Rightarrow> f x)"

text \<open>The truthiness test behind \<^verbatim>\<open>!x\<close>, \<^verbatim>\<open>if (x)\<close> and \<^verbatim>\<open>x || y\<close>.\<close>

fun truthy :: "js \<Rightarrow> bool" where
  "truthy JUndefined = False"
| "truthy JNull = False"
| "truthy (JBool b) = b"
| "truthy (JNum n) = (n \<noteq> 0)"
| "truthy JNaN = False"
| "truthy (JStr s) = (s \<noteq> [])"
| "truthy (JArr xs) = True"
| "truthy (JObj kvs) = True"

definition js_or :: "js \<Rightarrow> js \<Rightarrow> js" where
  "js_or a b = (if truthy a then a else b)"

text \<open>\<^verbatim>\<open>content || fallback\<close> for a message content of type \<^verbatim>\<open>string | null\<close>.\<close>

definition str_or :: "string option \<Rightarrow> string \<Rightarrow> string" where
  "str_or c d = (case c of None \<Rightarrow> d | Some s \<Rightarrow> if s = [] then d else s)"

text \<open>
  Reading a property \<^verbatim>\<open>v.k\<close> (also by destructuring): a \<^verbatim>\<open>TypeError\<close> on
  \<^verbatim>\<open>undefined\<close> and \<^verbatim>\<open>null\<close>, the member of an object, and \<^verbatim>\<open>undefined\<close> on
  any other value.  Members inherited from a prototype (such as \<^verbatim>\<open>length\<close> of a
  string) are not represented.
\<close>

definition obj_member :: "(string \<times> js) list \<Rightarrow> string \<Rightarrow> js" where
  "obj_member kvs k = (case map_of kvs k of None \<Rightarrow> JUndefined | Some v \<Rightarrow> v)"

fun get_prop :: "js \<Rightarrow> string \<Rightarrow> error + js" where
  "get_prop JUndefined k =
     Inl (TypeError (''Cannot read properties of undefined (reading '' @ k @ '')''))"
| "get_prop JNull k =
     Inl (TypeError (''Cannot read properties of null (reading '' @ k @ '')''))"
| "get_prop (JObj kvs) k = Inr (obj_member kvs k)"
| "get_prop v k = Inr JUndefined"

subsection \<open>Conversion to strings\<close>

definition digit_char :: "nat \<Rightarrow> char" where
  "digit_char d = ''0123456789'' ! d"

function show_nat :: "nat \<Rightarrow> string" where
  "show_nat n =
     (if n < 10 then [digit_char n] else show_nat (n div 10) @ [digit_char (n mod 10)])"
  by pat_completeness auto
termination
  by (relation "measure id") auto

declare show_nat.simps [simp del]

definition show_int :: "int \<Rightarrow> string" where
  "show_int i = (if i < 0 then CHR ''-'' # show_nat (nat (- i)) else show_nat (nat i))"

fun join :: "string \<Rightarrow> string list \<Rightarrow> string" where
  "join sep [] = []"
| "join sep [x] = x"
| "join sep (x # y # ys) = x @ sep @ join sep (y # ys)"

text \<open>
  \<^verbatim>\<open>String(v)\<close>, as a template literal applies it.  An array prints its elements joined
  by commas, \<^verbatim>\<open>undefined\<close> and \<^verbatim>\<open>null\<close> elements as the empty string; a plain
  object prints as \<^verbatim>\<open>[object Object]\<close>.  Integers print in decimal, which is what
  JavaScript does below \<open>10\<^sup>2\<^sup>1\<close>.
\<close>

fun ToString :: "js \<Rightarrow> string" where
  "ToString JUndefined = ''undefined''"
| "ToString JNull = ''null''"
| "ToString (JBool b) = (if b then ''true'' else ''false'')"
| "ToString (JNum n) = show_int n"
| "ToString JNaN = ''NaN''"
| "ToString (JStr s) = s"
| "ToString (JArr xs) =
     join '','' (map (\<lambda>x. if x = JUndefined \<or> x = JNull then [] else ToString x) xs)"
| "ToString (JObj kvs) = ''[object Object]''"

text \<open>\<^verbatim>\<open>v.join(sep)\<close>: only an array has the method.\<close>

fun js_join :: "js \<Rightarrow> string \<Rightarrow> error + string" where
  "js_join (JArr xs) sep =
     Inr (join sep (map (\<lambda>x. if x = JUndefined \<or> x = JNull then [] else ToString x) xs))"
| "js_join JUndefined sep =
     Inl (TypeError ''Cannot read properties of undefined (reading join)'')"
| "js_join JNull sep = Inl (TypeError ''Cannot read properties of null (reading join)'')"
| "js_join v sep = Inl (TypeError ''keywords.join is not a function'')"

subsection \<open>\<^verbatim>\<open>parseInt\<close>\<close>

text \<open>
  \<^verbatim>\<open>parseInt(v)\<close> with no radix: the argument is converted to a string, leading white
  space and one sign are skipped, a \<^verbatim>\<open>0x\<close> prefix selects radix 16, and the longest
  prefix of digits is read; with no digit the result is \<^verbatim>\<open>NaN\<close>.
\<close>

definition is_space :: "char \<Rightarrow> bool" where
  "is_space c = (c \<in> set [CHR 0x20, CHR 0x09, CHR 0x0A, CHR 0x0B, CHR 0x0C, CHR 0x0D])"

definition digit_value :: "nat \<Rightarrow> char \<Rightarrow> nat option" where
  "digit_value radix c =
     (let n = (of_char c :: nat);
          v = (if 48 \<le> n \<and> n \<le> 57 then Some (n - 48)
               else if 97 \<le> n \<and> n \<le> 122 then Some (n - 87)
               else if 65 \<le> n \<and> n \<le> 90 then Some (n - 55)
               else None)
      in case v of None \<Rightarrow> None | Some d \<Rightarrow> if d < radix then Some d else None)"

definition digits_value :: "nat \<Rightarrow> string \<Rightarrow> nat" where
  "digits_value radix ds =
     foldl (\<lambda>a c. a * radix + (case digit_value radix c of Some d \<Rightarrow> d | None \<Rightarrow> 0)) 0 ds"

definition parseInt_string :: "string \<Rightarrow> js" where
  "parseInt_string s =
     (let s1 = dropWhile is_space s;
          neg = (case s1 of c # r \<Rightarrow> c = CHR ''-'' | [] \<Rightarrow> False);
          s2 = (case s1 of c # r \<Rightarrow> if c = CHR ''-'' \<or> c = CHR ''+'' then r else s1 | [] \<Rightarrow> s1);
          hex = (take 2 s2 = ''0x'' \<or> take 2 s2 = ''0X'');
          radix = (if hex then 16 else 10);
          s3 = (if hex then drop 2 s2 else s2);
          ds = takeWhile (\<lambda>c. digit_value radix c \<noteq> None) s3
      in if ds = [] then JNaN
         else JNum ((if neg then - 1 else 1) * int (digits_value radix ds)))"

definition parseInt :: "js \<Rightarrow> js" where
  "parseInt v = parseInt_string (ToString v)"

text \<open>\<^verbatim>\<open>s.includes(p)\<close>: \<open>p\<close> occurs in \<open>s\<close> as a contiguous run.\<close>

fun str_includes :: "string \<Rightarrow> string \<Rightarrow> bool" where
  "str_includes [] p = (p = [])"
| "str_includes (c # s) p = (take (length p) (c # s) = p \<or> str_includes s p)"

section \<open>External capabilities\<close>

text \<open>
  The OpenAI client, \<^verbatim>\<open>JSON.parse\<close>, the axios client bound to the WordPress REST API
  and the clock are not part of the program; the services take them as a record of
  functions.  A chat completion yields the \<^verbatim>\<open>message.content\<close> of each returned choice
  (\<open>None\<close> for \<^verbatim>\<open>null\<close>); an HTTP call yields \<^verbatim>\<open>response.data\<close>.  Each may throw.
  \<^verbatim>\<open>max_tokens\<close> is \<^verbatim>\<open>Math.ceil(wordCount * 1.5)\<close>, arithmetic on doubles: the request
  records its operand.  \<open>Date_toISOString env v\<close> stands for
  \<^verbatim>\<open>new Date(v).toISOString()\<close>, which throws a \<^verbatim>\<open>RangeError\<close> on an invalid date.
\<close>

record chat_request =
  model :: string
  messages :: "(string \<times> string) list"
  response_format :: "string option"
  temperature_tenths :: nat
  max_tokens_of :: "js option"

record services =
  chat_completions_create :: "chat_request \<Rightarrow> error + string option list"
  JSON_parse :: "string \<Rightarrow> error + js"
  client_post :: "string \<Rightarrow> js \<Rightarrow> error + js"
  client_put :: "string \<Rightarrow> js \<Rightarrow> error + js"
  Date_now_ISO :: string
  Date_toISOString :: "js \<Rightarrow> error + string"

section \<open>LLM service (\<^verbatim>\<open>services/llm.service.ts\<close>)\<close>

definition nl :: string where
  "nl = [CHR 0x0A]"

definition dq :: string where
  "dq = [CHR 0x22]"

text \<open>\<^verbatim>\<open>response.choices[0].message.content\<close>: reading \<^verbatim>\<open>message\<close> of a missing first choice throws.\<close>

definition first_choice :: "string option list \<Rightarrow> error + string option" where
  "first_choice choices =
     (case choices of
        [] \<Rightarrow> Inl (TypeError ''Cannot read properties of undefined (reading message)'')
      | c # cs \<Rightarrow> Inr c)"

definition blog_prompt :: "js \<Rightarrow> js \<Rightarrow> string \<Rightarrow> string" where
  "blog_prompt wordCount topic joined =
     ''Write a '' @ ToString wordCount @ ''-word blog post about '' @ dq @ ToString topic @ dq
       @ ''.'' @ nl
     @ ''    '' @ nl
     @ ''Include these keywords naturally: '' @ joined @ ''.'' @ nl
     @ nl
     @ ''Format the content in HTML with:'' @ nl
     @ ''- An engaging introduction'' @ nl
     @ ''- Clear headings (h2, h3)'' @ nl
     @ ''- Well-structured paragraphs'' @ nl
     @ ''- Bullet points or numbered lists where appropriate'' @ nl
     @ ''- A strong conclusion'' @ nl
     @ nl
     @ ''Focus on providing valuable, actionable information.''"

definition blog_request :: "js \<Rightarrow> js \<Rightarrow> string \<Rightarrow> chat_request" where
  "blog_request wordCount topic joined =
     \<lparr> model = ''gpt-4-turbo-preview'',
       messages =
         [(''system'', ''You are a professional content writer specializing in SEO-optimized blog posts.''),
          (''user'', blog_prompt wordCount topic joined)],
       response_format = None,
       temperature_tenths = 7,
       max_tokens_of = Some wordCount \<rparr>"

definition generateBlogPost :: "services \<Rightarrow> js \<Rightarrow> js \<Rightarrow> js \<Rightarrow> error + string" where
  "generateBlogPost env topic keywords wordCount =
     andThen (js_join keywords '', '') (\<lambda>joined.
     andThen (chat_completions_create env (blog_request wordCount topic joined)) (\<lambda>choices.
     andThen (first_choice choices) (\<lambda>c.
     Inr (str_or c []))))"

definition seo_prompt :: "string \<Rightarrow> string" where
  "seo_prompt content =
     ''Analyze this blog post content and generate SEO metadata:'' @ nl
     @ nl
     @ take 1000 content @ ''...'' @ nl
     @ nl
     @ ''Generate:'' @ nl
     @ ''1. An SEO-optimized meta title (55-60 characters)'' @ nl
     @ ''2. A compelling meta description (150-160 characters)'' @ nl
     @ ''3. 5-7 relevant tags'' @ nl
     @ nl
     @ ''Return as JSON: { '' @ dq @ ''title'' @ dq @ '': '' @ dq @ ''...'' @ dq @ '', ''
     @ dq @ ''description'' @ dq @ '': '' @ dq @ ''...'' @ dq @ '', ''
     @ dq @ ''tags'' @ dq @ '': ['' @ dq @ ''tag1'' @ dq @ '', '' @ dq @ ''tag2'' @ dq
     @ '', ...] }''"

definition seo_request :: "string \<Rightarrow> chat_request" where
  "seo_request content =
     \<lparr> model = ''gpt-4-turbo-preview'',
       messages = [(''user'', seo_prompt content)],
       response_format = Some ''json_object'',
       temperature_tenths = 5,
       max_tokens_of = None \<rparr>"

text \<open>
  The parsed value is returned as it is: the declared result type
  \<^verbatim>\<open>{title, description, tags}\<close> is erased at run time and nothing inspects the value.
\<close>

definition generateSEOMetadata :: "services \<Rightarrow> string \<Rightarrow> error + js" where
  "generateSEOMetadata env content =
     andThen (chat_completions_create env (seo_request content)) (\<lambda>choices.
     andThen (first_choice choices) (\<lambda>c.
     JSON_parse env (str_or c ''{}'')))"

definition faq_prompt :: "string \<Rightarrow> string" where
  "faq_prompt content =
     ''Based on this blog post content, generate 3-5 FAQ questions and answers for structured data:''
     @ nl
     @ nl
     @ take 1500 content @ ''...'' @ nl
     @ nl
     @ ''Return as JSON array: [{ '' @ dq @ ''question'' @ dq @ '': '' @ dq @ ''...'' @ dq
     @ '', '' @ dq @ ''answer'' @ dq @ '': '' @ dq @ ''...'' @ dq @ '' }, ...]''"

definition empty_faqs_document :: string where
  "empty_faqs_document = ''{'' @ dq @ ''faqs'' @ dq @ '': []}''"

definition faq_request :: "string \<Rightarrow> chat_request" where
  "faq_request content =
     \<lparr> model = ''gpt-4-turbo-preview'',
       messages = [(''user'', faq_prompt content)],
       response_format = Some ''json_object'',
       temperature_tenths = 6,
       max_tokens_of = None \<rparr>"

definition generateFAQSchema :: "services \<Rightarrow> string \<Rightarrow> error + js" where
  "generateFAQSchema env content =
     andThen (chat_completions_create env (faq_request content)) (\<lambda>choices.
     andThen (first_choice choices) (\<lambda>c.
     andThen (JSON_parse env (str_or c empty_faqs_document)) (\<lambda>result.
     andThen (get_prop result ''faqs'') (\<lambda>faqs.
     Inr (js_or faqs (JArr []))))))"

section \<open>WordPress service (\<^verbatim>\<open>services/wordpress.service.ts\<close>)\<close>

text \<open>
  The publishing claims count the HTTP calls, so each service function returns the log
  of the calls it made together with its outcome.
\<close>

datatype wp_call =
    Post string js
  | Put string js

type_synonym 'a logged = "wp_call list \<times> (error + 'a)"

definition pure :: "error + 'a \<Rightarrow> 'a logged" where
  "pure r = ([], r)"

definition thenCall :: "'a logged \<Rightarrow> ('a \<Rightarrow> 'b logged) \<Rightarrow> 'b logged" where
  "thenCall m f =
     (case m of
        (l, Inl e) \<Rightarrow> (l, Inl e)
      | (l, Inr x) \<Rightarrow> (case f x of (l', r) \<Rightarrow> (l @ l', r)))"

definition createPost :: "services \<Rightarrow> js \<Rightarrow> js logged" where
  "createPost env data = ([Post ''/posts'' data], client_post env ''/posts'' data)"

text \<open>
  \<^verbatim>\<open>schedulePost(postId, date)\<close>: the arguments of \<^verbatim>\<open>client.put\<close> are evaluated first, so
  an invalid date throws before any request is sent.
\<close>

definition schedulePost :: "services \<Rightarrow> js \<Rightarrow> js \<Rightarrow> js logged" where
  "schedulePost env postId date =
     thenCall (pure (Date_toISOString env date)) (\<lambda>stamp.
       let url = ''/posts/'' @ ToString postId;
           body = JObj [(''status'', JStr ''future''), (''date'', JStr stamp)]
       in ([Put url body], client_put env url body))"

section \<open>Workers (\<^verbatim>\<open>jobs/queue.ts\<close>)\<close>

text \<open>The processor of the \<^verbatim>\<open>content-generation\<close> worker, applied to \<^verbatim>\<open>job.data\<close>.\<close>

definition content_processor :: "services \<Rightarrow> js \<Rightarrow> error + js" where
  "content_processor env data =
     andThen (get_prop data ''topic'') (\<lambda>topic.
     andThen (get_prop data ''keywords'') (\<lambda>keywords.
     andThen (get_prop data ''wordCount'') (\<lambda>wordCount.
     andThen (get_prop data ''contentId'') (\<lambda>contentId.
     andThen (generateBlogPost env topic keywords wordCount) (\<lambda>content.
     andThen (generateSEOMetadata env content) (\<lambda>seo.
     andThen (generateFAQSchema env content) (\<lambda>faqs.
     Inr (JObj [(''contentId'', contentId), (''content'', JStr content), (''seo'', seo),
                (''faqs'', faqs), (''topic'', topic)]))))))))"

text \<open>
  The processor of the \<^verbatim>\<open>publishing\<close> worker.  The log line before the first call reads
  \<^verbatim>\<open>seo.title\<close>, and the one after the calls reads \<^verbatim>\<open>post.id\<close>; both reads can throw.
\<close>

definition publish_processor :: "services \<Rightarrow> js \<Rightarrow> js logged" where
  "publish_processor env data =
     thenCall (pure (get_prop data ''content'')) (\<lambda>content.
     thenCall (pure (get_prop data ''seo'')) (\<lambda>seo.
     thenCall (pure (get_prop data ''status'')) (\<lambda>status.
     thenCall (pure (get_prop data ''scheduleDate'')) (\<lambda>scheduleDate.
     thenCall (pure (get_prop seo ''title'')) (\<lambda>title.
     thenCall (pure (get_prop seo ''description'')) (\<lambda>description.
     thenCall (createPost env
        (JObj [(''title'', title), (''content'', content), (''excerpt'', description),
               (''status'', js_or status (JStr ''draft''))])) (\<lambda>post.
     thenCall (if truthy scheduleDate
               then thenCall (pure (get_prop post ''id'')) (\<lambda>postId.
                      schedulePost env postId scheduleDate)
               else pure (Inr JUndefined)) (\<lambda>scheduled.
     thenCall (pure (get_prop post ''id'')) (\<lambda>postId.
     thenCall (pure (get_prop post ''link'')) (\<lambda>link.
     pure (Inr (JObj [(''wordpressId'', postId), (''wordpressUrl'', link),
                      (''publishedAt'', JStr (Date_now_ISO env))]))))))))))))"

text \<open>The options each worker is created with.\<close>

record worker_opts =
  concurrency :: nat
  limiter :: "(nat \<times> nat) option"

definition content_worker_opts :: worker_opts where
  "content_worker_opts = \<lparr> concurrency = 2, limiter = Some (10, 60000) \<rparr>"

definition publish_worker_opts :: worker_opts where
  "publish_worker_opts = \<lparr> concurrency = 1, limiter = None \<rparr>"

section \<open>Jobs and the job store\<close>

text \<open>
  The fields of a queue job that the routes read (\<^verbatim>\<open>id\<close>, \<^verbatim>\<open>progress\<close>,
  \<^verbatim>\<open>returnvalue\<close>, \<^verbatim>\<open>failedReason\<close>, and the state \<^verbatim>\<open>getState()\<close> reports), the
  payload the workers read (\<^verbatim>\<open>data\<close>), and the attempt count of the specification.
\<close>

datatype job_state = Waiting | Active | Completed | Failed

record job =
  jid :: string
  name :: string
  data :: js
  jstate :: job_state
  progress :: js
  returnvalue :: js
  failedReason :: js
  attemptsMade :: nat

fun state_name :: "job_state \<Rightarrow> string" where
  "state_name Waiting = ''waiting''"
| "state_name Active = ''active''"
| "state_name Completed = ''completed''"
| "state_name Failed = ''failed''"

text \<open>
  Modelled from the spec: a job as enqueueing creates it (the queue library is not among
  the sources).  It waits, has made no attempt, and has progress \<open>0\<close>, no result and no
  failure reason.
\<close>

definition new_job :: "string \<Rightarrow> string \<Rightarrow> js \<Rightarrow> job" where
  "new_job i n d =
     \<lparr> jid = i, name = n, data = d, jstate = Waiting, progress = JNum 0,
       returnvalue = JNull, failedReason = JUndefined, attemptsMade = 0 \<rparr>"

text \<open>
  Modelled from the spec: the job store of one queue (the queue library is not among the
  sources): the jobs in enqueue order, and whether the store can be reached.
\<close>

record queue =
  jobs :: "job list"
  connected :: bool

text \<open>Modelled from the spec: a reachable store that holds no job.\<close>

definition empty_queue :: queue where
  "empty_queue = \<lparr> jobs = [], connected = True \<rparr>"

text \<open>
  Modelled from the spec: \<^verbatim>\<open>Queue.add(name, data)\<close> writes a waiting job under a fresh id
  and returns it; it throws while the store cannot be reached.
\<close>

definition Queue_add :: "queue \<Rightarrow> string \<Rightarrow> js \<Rightarrow> error + job \<times> queue" where
  "Queue_add q n d =
     (if connected q
      then (let j = new_job (show_nat (Suc (length (jobs q)))) n d
            in Inr (j, q\<lparr>jobs := jobs q @ [j]\<rparr>))
      else Inl (RemoteError ''connect ECONNREFUSED''))"

text \<open>
  Modelled from the spec: \<^verbatim>\<open>Queue.getJob(id)\<close> returns the job's record, or nothing when
  no job has the id; it throws while the store cannot be reached.
\<close>

definition Queue_getJob :: "queue \<Rightarrow> string \<Rightarrow> error + job option" where
  "Queue_getJob q i =
     (if connected q then Inr (find (\<lambda>j. jid j = i) (jobs q))
      else Inl (RemoteError ''connect ECONNREFUSED''))"

section \<open>Routes\<close>

record response =
  status_code :: nat
  body :: js

definition json :: "nat \<Rightarrow> (string \<times> js) list \<Rightarrow> response" where
  "json code kvs = \<lparr> status_code = code, body = JObj kvs \<rparr>"

text \<open>\<^verbatim>\<open>try { ... } catch (error) { res.status(500).json({ error: msg }) }\<close>\<close>

definition catch500 :: "string \<Rightarrow> queue \<Rightarrow> error + response \<times> queue \<Rightarrow> response \<times> queue" where
  "catch500 msg q r =
     (case r of Inl e \<Rightarrow> (json 500 [(''error'', JStr msg)], q) | Inr x \<Rightarrow> x)"

text \<open>\<^verbatim>\<open>POST /api/publish\<close> on the publishing queue \<open>q\<close> with request body \<open>b\<close>.\<close>

definition publish_post :: "queue \<Rightarrow> js \<Rightarrow> response \<times> queue" where
  "publish_post q b =
     catch500 ''Failed to publish content'' q
      (andThen (get_prop b ''content'') (\<lambda>content.
       andThen (get_prop b ''seo'') (\<lambda>seo.
       andThen (get_prop b ''status'') (\<lambda>status.
       andThen (get_prop b ''scheduleDate'') (\<lambda>scheduleDate.
       if \<not> truthy content \<or> \<not> truthy seo
       then Inr (json 400 [(''error'', JStr ''Missing required fields: content, seo'')], q)
       else
         andThen (Queue_add q ''publish''
            (JObj [(''content'', content), (''seo'', seo),
                   (''status'', js_or status (JStr ''draft'')),
                   (''scheduleDate'', scheduleDate)])) (\<lambda>(j, q').
         Inr (json 200 [(''jobId'', JStr (jid j)), (''status'', JStr ''publishing''),
                        (''message'', JStr ''Publishing started'')], q')))))))"

text \<open>\<^verbatim>\<open>GET /api/publish/job/:jobId\<close>\<close>

definition publish_get_job :: "queue \<Rightarrow> string \<Rightarrow> response" where
  "publish_get_job q jobId =
     (case Queue_getJob q jobId of
        Inl e \<Rightarrow> json 500 [(''error'', JStr ''Failed to get job status'')]
      | Inr None \<Rightarrow> json 404 [(''error'', JStr ''Job not found'')]
      | Inr (Some j) \<Rightarrow>
          json 200 [(''jobId'', JStr (jid j)), (''state'', JStr (state_name (jstate j))),
                    (''result'', returnvalue j), (''failedReason'', failedReason j)])"

text \<open>
  \<^verbatim>\<open>POST /api/content/generate\<close> on the content queue \<open>q\<close>; \<open>uuid\<close> is the value
  \<^verbatim>\<open>uuidv4()\<close> returns.
\<close>

definition content_generate :: "queue \<Rightarrow> string \<Rightarrow> js \<Rightarrow> response \<times> queue" where
  "content_generate q uuid b =
     catch500 ''Failed to start content generation'' q
      (andThen (get_prop b ''topic'') (\<lambda>topic.
       andThen (get_prop b ''keywords'') (\<lambda>keywords.
       andThen (get_prop b ''wordCount'') (\<lambda>wordCount.
       if \<not> truthy topic \<or> \<not> truthy keywords \<or> \<not> truthy wordCount
       then Inr (json 400
              [(''error'', JStr ''Missing required fields: topic, keywords, wordCount'')], q)
       else
         andThen (Queue_add q ''generate''
            (JObj [(''contentId'', JStr uuid), (''topic'', topic), (''keywords'', keywords),
                   (''wordCount'', parseInt wordCount)])) (\<lambda>(j, q').
         Inr (json 200 [(''jobId'', JStr (jid j)), (''contentId'', JStr uuid),
                        (''status'', JStr ''processing''),
                        (''message'', JStr ''Content generation started'')], q'))))))"

text \<open>\<^verbatim>\<open>GET /api/content/job/:jobId\<close>\<close>

definition content_get_job :: "queue \<Rightarrow> string \<Rightarrow> response" where
  "content_get_job q jobId =
     (case Queue_getJob q jobId of
        Inl e \<Rightarrow> json 500 [(''error'', JStr ''Failed to get job status'')]
      | Inr None \<Rightarrow> json 404 [(''error'', JStr ''Job not found'')]
      | Inr (Some j) \<Rightarrow>
          json 200 [(''jobId'', JStr (jid j)), (''state'', JStr (state_name (jstate j))),
                    (''progress'', progress j), (''result'', returnvalue j),
                    (''failedReason'', failedReason j)])"

section \<open>The worker pool\<close>

text \<open>
  The scheduler that runs the workers' processors is the queue library, which is not
  among the sources; what it does with a job is taken from the specification.
\<close>

text \<open>
  Modelled from the spec: a claim makes a waiting job active and counts the attempt.
\<close>

definition claim :: "job \<Rightarrow> job" where
  "claim j = j\<lparr>jstate := Active, attemptsMade := Suc (attemptsMade j)\<rparr>"

text \<open>
  Modelled from the spec: the end of one execution of the task function.  A success
  completes the job and stores the result.  A failure returns the job to the waiting
  state while attempts remain, and otherwise fails it and stores the error's message as
  the failure reason.  The delay before a retry is not represented.
\<close>

definition settle :: "nat \<Rightarrow> job \<Rightarrow> error + js \<Rightarrow> job" where
  "settle maxAttempts j outcome =
     (case outcome of
        Inr r \<Rightarrow> j\<lparr>jstate := Completed, returnvalue := r\<rparr>
      | Inl e \<Rightarrow>
          if attemptsMade j < maxAttempts then j\<lparr>jstate := Waiting\<rparr>
          else j\<lparr>jstate := Failed, failedReason := JStr (message e)\<rparr>)"

text \<open>
  Modelled from the spec: one job run to its terminal state.  \<open>task k\<close> is the task
  function as it behaves in the \<open>k\<close>-th attempt (the remote services may answer
  differently each time).
\<close>

function run_job :: "nat \<Rightarrow> (nat \<Rightarrow> js \<Rightarrow> error + js) \<Rightarrow> job \<Rightarrow> job" where
  "run_job maxAttempts task j =
     (let a = claim j;
          j' = settle maxAttempts a (task (attemptsMade a) (data a))
      in if jstate j' = Waiting then run_job maxAttempts task j' else j')"
  by pat_completeness auto
termination
  by (relation "measure (\<lambda>(m, t, j). m - attemptsMade j)")
     (auto simp: claim_def settle_def split: sum.splits if_splits)

declare run_job.simps [simp del]

text \<open>
  Modelled from the spec: the job as a failed attempt leaves it when another attempt
  remains.
\<close>

definition retried :: "job \<Rightarrow> job" where
  "retried j = (claim j)\<lparr>jstate := Waiting\<rparr>"

text \<open>
  A job of each queue, enqueued with a payload object and run to its end with the
  processor of its worker; \<open>envs k\<close> is what the external services do during the
  \<open>k\<close>-th attempt.
\<close>

definition run_generation_job ::
  "nat \<Rightarrow> (nat \<Rightarrow> services) \<Rightarrow> string \<Rightarrow> (string \<times> js) list \<Rightarrow> job" where
  "run_generation_job maxAttempts envs i kvs =
     run_job maxAttempts (\<lambda>k. content_processor (envs k)) (new_job i ''generate'' (JObj kvs))"

definition run_publish_job ::
  "nat \<Rightarrow> (nat \<Rightarrow> services) \<Rightarrow> string \<Rightarrow> (string \<times> js) list \<Rightarrow> job" where
  "run_publish_job maxAttempts envs i kvs =
     run_job maxAttempts (\<lambda>k d. snd (publish_processor (envs k) d))
       (new_job i ''publish'' (JObj kvs))"

text \<open>External services that behave the same way in every attempt.\<close>

definition always :: "services \<Rightarrow> nat \<Rightarrow> services" where
  "always env k = env"


text \<open>
  Modelled from the spec: the pool of one queue.  It keeps the jobs in enqueue order, a
  clock in milliseconds and the times at which executions started, newest first.
\<close>

record pool =
  pool_jobs :: "job list"
  clock :: nat
  starts :: "nat list"

text \<open>
  Modelled from the spec: what can happen to a pool.  A job is enqueued, time passes, the
  dequeue loop tries to start an execution, or the execution of a job ends with an
  outcome.
\<close>

datatype event =
    Enqueue string js
  | Advance nat
  | Start
  | Finish string "error + js"

text \<open>Modelled from the spec: a pool with no job, at time \<open>0\<close>.\<close>

definition empty_pool :: pool where
  "empty_pool = \<lparr> pool_jobs = [], clock = 0, starts = [] \<rparr>"

text \<open>Modelled from the spec: the number of jobs in the active state.\<close>

definition active_count :: "job list \<Rightarrow> nat" where
  "active_count js = length (filter (\<lambda>j. jstate j = Active) js)"

text \<open>
  Modelled from the spec: the number of starts within the window of the given length
  that ends now.
\<close>

definition window_count :: "nat \<Rightarrow> nat \<Rightarrow> nat list \<Rightarrow> nat" where
  "window_count duration now ss = length (filter (\<lambda>s. now < s + duration) ss)"

text \<open>
  Modelled from the spec: the rate limit allows another start.  The limiter option is
  the pair of \<^verbatim>\<open>max\<close> and \<^verbatim>\<open>duration\<close>; a pool without one is not limited.
\<close>

definition window_open :: "worker_opts \<Rightarrow> pool \<Rightarrow> bool" where
  "window_open opts p =
     (case limiter opts of
        None \<Rightarrow> True
      | Some (mx, duration) \<Rightarrow> window_count duration (clock p) (starts p) < mx)"

text \<open>
  Modelled from the spec: an execution may start while fewer than \<^verbatim>\<open>concurrency\<close>
  jobs are active, the rate limit allows it, and some job waits.
\<close>

definition can_start :: "worker_opts \<Rightarrow> pool \<Rightarrow> bool" where
  "can_start opts p =
     (active_count (pool_jobs p) < concurrency opts \<and> window_open opts p
      \<and> (\<exists>j \<in> set (pool_jobs p). jstate j = Waiting))"

text \<open>Modelled from the spec: the oldest waiting job is the one claimed.\<close>

fun claim_first :: "job list \<Rightarrow> job list" where
  "claim_first [] = []"
| "claim_first (j # js) = (if jstate j = Waiting then claim j # js else j # claim_first js)"

text \<open>Modelled from the spec: the execution of the active job with the given id ends.\<close>

definition settle_job :: "nat \<Rightarrow> string \<Rightarrow> error + js \<Rightarrow> job list \<Rightarrow> job list" where
  "settle_job maxAttempts i outcome js =
     map (\<lambda>j. if jid j = i \<and> jstate j = Active then settle maxAttempts j outcome else j) js"

text \<open>Modelled from the spec: one event applied to the pool.\<close>

fun pool_step :: "worker_opts \<Rightarrow> nat \<Rightarrow> pool \<Rightarrow> event \<Rightarrow> pool" where
  "pool_step opts maxAttempts p (Enqueue n d) =
     p\<lparr>pool_jobs := pool_jobs p @ [new_job (show_nat (Suc (length (pool_jobs p)))) n d]\<rparr>"
| "pool_step opts maxAttempts p (Advance d) = p\<lparr>clock := clock p + d\<rparr>"
| "pool_step opts maxAttempts p Start =
     (if can_start opts p
      then p\<lparr>pool_jobs := claim_first (pool_jobs p), starts := clock p # starts p\<rparr>
      else p)"
| "pool_step opts maxAttempts p (Finish i outcome) =
     p\<lparr>pool_jobs := settle_job maxAttempts i outcome (pool_jobs p)\<rparr>"

text \<open>Modelled from the spec: a sequence of events applied to the empty pool.\<close>

definition run_pool :: "worker_opts \<Rightarrow> nat \<Rightarrow> event list \<Rightarrow> pool" where
  "run_pool opts maxAttempts evs = foldl (pool_step opts maxAttempts) empty_pool evs"

section \<open>Properties named by the specification\<close>

definition is_string :: "js \<Rightarrow> bool" where
  "is_string v = (case v of JStr s \<Rightarrow> True | _ \<Rightarrow> False)"

definition nonempty_string :: "js \<Rightarrow> bool" where
  "nonempty_string v = (case v of JStr s \<Rightarrow> s \<noteq> [] | _ \<Rightarrow> False)"

text \<open>The shape \<^verbatim>\<open>{title, description, tags}\<close> the SEO answer is expected to have.\<close>

definition seo_shape :: "js \<Rightarrow> bool" where
  "seo_shape v =
     (case v of
        JObj kvs \<Rightarrow>
          is_string (obj_member kvs ''title'') \<and> is_string (obj_member kvs ''description'')
          \<and> (case obj_member kvs ''tags'' of JArr ts \<Rightarrow> list_all is_string ts | _ \<Rightarrow> False)
      | _ \<Rightarrow> False)"

text \<open>\<^verbatim>\<open>seo.tags\<close> is a non-empty collection of strings.\<close>

definition tags_nonempty :: "js \<Rightarrow> bool" where
  "tags_nonempty seo =
     (case seo of
        JObj kvs \<Rightarrow>
          (case obj_member kvs ''tags'' of
             JArr ts \<Rightarrow> ts \<noteq> [] \<and> list_all is_string ts
           | _ \<Rightarrow> False)
      | _ \<Rightarrow> False)"

text \<open>\<^verbatim>\<open>faqs\<close> is a sequence of pairs with non-empty question and answer.\<close>

definition faq_pair :: "js \<Rightarrow> bool" where
  "faq_pair v =
     (case v of
        JObj kvs \<Rightarrow>
          nonempty_string (obj_member kvs ''question'')
          \<and> nonempty_string (obj_member kvs ''answer'')
      | _ \<Rightarrow> False)"

definition faqs_shape :: "js \<Rightarrow> bool" where
  "faqs_shape v = (case v of JArr xs \<Rightarrow> list_all faq_pair xs | _ \<Rightarrow> False)"

text \<open>One of the three generation steps throws, given that the ones before it returned.\<close>

definition some_step_fails :: "services \<Rightarrow> js \<Rightarrow> js \<Rightarrow> js \<Rightarrow> bool" where
  "some_step_fails env topic keywords wordCount =
     (case generateBlogPost env topic keywords wordCount of
        Inl e \<Rightarrow> True
      | Inr content \<Rightarrow>
          (case generateSEOMetadata env content of
             Inl e \<Rightarrow> True
           | Inr seo \<Rightarrow>
               (case generateFAQSchema env content of Inl e \<Rightarrow> True | Inr faqs \<Rightarrow> False)))"

text \<open>The result object the content worker returns.\<close>

definition generated_content :: "js \<Rightarrow> js \<Rightarrow> string \<Rightarrow> js \<Rightarrow> js \<Rightarrow> js" where
  "generated_content contentId topic content seo faqs =
     JObj [(''contentId'', contentId), (''content'', JStr content), (''seo'', seo),
           (''faqs'', faqs), (''topic'', topic)]"

text \<open>The argument of the create-post call and the result object of the publish worker.\<close>

definition post_data :: "(string \<times> js) list \<Rightarrow> js \<Rightarrow> js \<Rightarrow> js" where
  "post_data kvs title description =
     JObj [(''title'', title), (''content'', obj_member kvs ''content''),
           (''excerpt'', description),
           (''status'', js_or (obj_member kvs ''status'') (JStr ''draft''))]"

definition publish_outcome :: "services \<Rightarrow> js \<Rightarrow> js \<Rightarrow> js" where
  "publish_outcome env postId link =
     JObj [(''wordpressId'', postId), (''wordpressUrl'', link),
           (''publishedAt'', JStr (Date_now_ISO env))]"

definition schedule_data :: "string \<Rightarrow> js" where
  "schedule_data stamp = JObj [(''status'', JStr ''future''), (''date'', JStr stamp)]"

text \<open>The keys of a JSON response body, in order.\<close>

definition body_keys :: "response \<Rightarrow> string list" where
  "body_keys r = (case body r of JObj kvs \<Rightarrow> map fst kvs | _ \<Rightarrow> [])"

section \<open>Concrete environments and inputs\<close>

text \<open>
  The examples need values for the external capabilities.  \<open>JSON_parse_of\<close> is
  \<^verbatim>\<open>JSON.parse\<close> on a finite set of documents, each listed with the value it denotes;
  any other text is treated as one that does not parse, and the examples use only
  \<^verbatim>\<open>not json\<close> as such a text.
\<close>

definition quoted :: "string \<Rightarrow> string" where
  "quoted s = dq @ s @ dq"

definition seo_document :: string where
  "seo_document =
     ''{'' @ quoted ''title'' @ '': '' @ quoted ''AI in Healthcare'' @ '', ''
     @ quoted ''description'' @ '': '' @ quoted ''How AI helps patients'' @ '', ''
     @ quoted ''tags'' @ '': ['' @ quoted ''ai'' @ '', '' @ quoted ''health'' @ '']}''"

definition faq_document :: string where
  "faq_document =
     ''{'' @ quoted ''faqs'' @ '': [{'' @ quoted ''question'' @ '': '' @ quoted ''What is AI?''
     @ '', '' @ quoted ''answer'' @ '': '' @ quoted ''Software that learns.'' @ ''}]}''"

definition sample_documents :: "(string \<times> js) list" where
  "sample_documents =
     [(''{}'', JObj []),
      (empty_faqs_document, JObj [(''faqs'', JArr [])]),
      (seo_document,
         JObj [(''title'', JStr ''AI in Healthcare''),
               (''description'', JStr ''How AI helps patients''),
               (''tags'', JArr [JStr ''ai'', JStr ''health''])]),
      (faq_document,
         JObj [(''faqs'', JArr [JObj [(''question'', JStr ''What is AI?''),
                                      (''answer'', JStr ''Software that learns.'')]])])]"

definition JSON_parse_of :: "(string \<times> js) list \<Rightarrow> string \<Rightarrow> error + js" where
  "JSON_parse_of documents s =
     (case map_of documents s of
        Some v \<Rightarrow> Inr v
      | None \<Rightarrow> Inl (SyntaxError ''Unexpected token in JSON''))"

text \<open>
  A model that answers the draft request with a paragraph and the SEO and FAQ requests
  with the given contents.
\<close>

definition sample_chat ::
  "string option \<Rightarrow> string option \<Rightarrow> chat_request \<Rightarrow> error + string option list" where
  "sample_chat seo_answer faq_answer req =
     (if response_format req = None then Inr [Some ''<p>Hello</p>'']
      else if temperature_tenths req = 5 then Inr [seo_answer]
      else Inr [faq_answer])"

definition sample_post :: js where
  "sample_post = JObj [(''id'', JNum 42), (''link'', JStr ''https://blog.example.com/?p=42'')]"

definition sample_date :: "js \<Rightarrow> error + string" where
  "sample_date v =
     (if v = JStr ''2024-12-25T10:00:00Z'' then Inr ''2024-12-25T10:00:00.000Z''
      else Inl (RangeError ''Invalid time value''))"

definition sample_env :: "string option \<Rightarrow> string option \<Rightarrow> services" where
  "sample_env seo_answer faq_answer =
     \<lparr> chat_completions_create = sample_chat seo_answer faq_answer,
       JSON_parse = JSON_parse_of sample_documents,
       client_post = (\<lambda>url d. Inr sample_post),
       client_put = (\<lambda>url d. Inr sample_post),
       Date_now_ISO = ''2024-12-20T08:00:00.000Z'',
       Date_toISOString = sample_date \<rparr>"

text \<open>The same environment with a WordPress server that refuses every update.\<close>

definition put_fails_env :: services where
  "put_fails_env =
     (sample_env None None)
       \<lparr>client_put := (\<lambda>url d. Inl (RemoteError ''Request failed with status code 500''))\<rparr>"

definition generation_fields :: "(string \<times> js) list" where
  "generation_fields =
     [(''contentId'', JStr ''c-1''), (''topic'', JStr ''AI in Healthcare''),
      (''keywords'', JArr [JStr ''machine learning'', JStr ''patient care'']),
      (''wordCount'', JNum 1500)]"

definition publish_fields :: "js \<Rightarrow> js \<Rightarrow> (string \<times> js) list" where
  "publish_fields status scheduleDate =
     [(''content'', JStr ''<p>Hello</p>''),
      (''seo'', JObj [(''title'', JStr ''AI in Healthcare''),
                      (''description'', JStr ''How AI helps patients'')]),
      (''status'', status), (''scheduleDate'', scheduleDate)]"

definition generate_body :: "js \<Rightarrow> js \<Rightarrow> js \<Rightarrow> (string \<times> js) list" where
  "generate_body topic keywords wordCount =
     [(''topic'', topic), (''keywords'', keywords), (''wordCount'', wordCount)]"

text \<open>Eleven generation jobs enqueued at once and run one after the other.\<close>

definition burst :: "event list" where
  "burst =
     map (\<lambda>i. Enqueue ''generate'' (JNum (int i))) [1, 2, 3, 4, 5, 6, 7, 8, 9, 10, 11]
     @ concat (map (\<lambda>i. [Start, Finish (show_nat i) (Inr JNull)])
                 [1, 2, 3, 4, 5, 6, 7, 8, 9, 10, 11])"

text \<open>Every recorded start was admitted with the window's budget open.\<close>

fun admitted :: "nat \<Rightarrow> nat \<Rightarrow> nat list \<Rightarrow> bool" where
  "admitted mx duration [] = True"
| "admitted mx duration (s # ss) =
     (window_count duration s ss < mx \<and> admitted mx duration ss)"

text \<open>Three jobs enqueued, and three attempts to start one.\<close>

definition three_starts :: "event list" where
  "three_starts =
     [Enqueue ''job'' (JStr ''a''), Enqueue ''job'' (JStr ''b''), Enqueue ''job'' (JStr ''c''),
      Start, Start, Start]"

section \<open>Basic facts\<close>

subsection \<open>Sequencing\<close>

lemma andThen_Inl [simp]: "andThen (Inl e) f = Inl e"
  by (simp add: andThen_def)

lemma andThen_Inr [simp]: "andThen (Inr x) f = f x"
  by (simp add: andThen_def)

lemma thenCall_pure_Inl [simp]: "thenCall (pure (Inl e)) f = ([], Inl e)"
  by (simp add: thenCall_def pure_def)

lemma thenCall_pure_Inr [simp]: "thenCall (pure (Inr x)) f = f x"
  by (simp add: thenCall_def pure_def split: prod.splits)

lemma thenCall_Inl [simp]: "thenCall (l, Inl e) f = (l, Inl e)"
  by (simp add: thenCall_def)

lemma thenCall_Inr [simp]: "thenCall (l, Inr x) f = (l @ fst (f x), snd (f x))"
  by (simp add: thenCall_def split: prod.splits)

subsection \<open>A job run to its end\<close>

lemma always_apply [simp]: "always env k = env"
  by (simp add: always_def)

lemma data_claim [simp]: "data (claim j) = data j"
  by (simp add: claim_def)

lemma data_settle [simp]: "data (settle m j out) = data j"
  by (simp add: settle_def split: sum.splits)

lemma run_job_unfold:
  "run_job m task j =
     (if jstate (settle m (claim j) (task (Suc (attemptsMade j)) (data j))) = Waiting
      then run_job m task (settle m (claim j) (task (Suc (attemptsMade j)) (data j)))
      else settle m (claim j) (task (Suc (attemptsMade j)) (data j)))"
  by (subst run_job.simps) (simp add: Let_def claim_def)

lemma attemptsMade_claim [simp]: "attemptsMade (claim j) = Suc (attemptsMade j)"
  by (simp add: claim_def)

lemma retried_simps [simp]:
  "data (retried j) = data j" "attemptsMade (retried j) = Suc (attemptsMade j)"
  "returnvalue (retried j) = returnvalue j"
  by (simp_all add: retried_def claim_def)

lemma run_job_Inr:
  "task (Suc (attemptsMade j)) (data j) = Inr r \<Longrightarrow>
   run_job m task j = (claim j)\<lparr>jstate := Completed, returnvalue := r\<rparr>"
  by (subst run_job_unfold) (simp add: settle_def)

lemma run_job_Inl_retry:
  "task (Suc (attemptsMade j)) (data j) = Inl e \<Longrightarrow> Suc (attemptsMade j) < m \<Longrightarrow>
   run_job m task j = run_job m task (retried j)"
  by (subst run_job_unfold) (simp add: settle_def retried_def)

lemma run_job_Inl_last:
  "task (Suc (attemptsMade j)) (data j) = Inl e \<Longrightarrow> \<not> Suc (attemptsMade j) < m \<Longrightarrow>
   run_job m task j = (claim j)\<lparr>jstate := Failed, failedReason := JStr (message e)\<rparr>"
  by (subst run_job_unfold) (simp add: settle_def)

lemma run_job_retry_induct [case_names step]:
  assumes "\<And>j. (\<And>e. task (Suc (attemptsMade j)) (data j) = Inl e \<Longrightarrow>
                      Suc (attemptsMade j) < m \<Longrightarrow> P (retried j)) \<Longrightarrow> P j"
  shows "P j"
proof (induction "m - attemptsMade j" arbitrary: j rule: less_induct)
  case less
  show ?case
  proof (rule assms)
    fix e
    assume "Suc (attemptsMade j) < m"
    then have "m - attemptsMade (retried j) < m - attemptsMade j" by simp
    then show "P (retried j)" by (rule less)
  qed
qed

lemma run_job_terminal:
  "jstate (run_job m task j) = Completed \<or> jstate (run_job m task j) = Failed"
proof (induction j rule: run_job_retry_induct [where task = task and m = m])
  case (step j)
  show ?case
  proof (cases "task (Suc (attemptsMade j)) (data j)")
    case (Inr r)
    then show ?thesis by (simp add: run_job_Inr)
  next
    case (Inl e)
    show ?thesis
    proof (cases "Suc (attemptsMade j) < m")
      case True
      with Inl step show ?thesis by (simp add: run_job_Inl_retry)
    next
      case False
      with Inl show ?thesis by (simp add: run_job_Inl_last)
    qed
  qed
qed

lemma run_job_completed:
  "jstate (run_job m task j) = Completed \<Longrightarrow>
   \<exists>k. task k (data j) = Inr (returnvalue (run_job m task j))"
proof (induction j rule: run_job_retry_induct [where task = task and m = m])
  case (step j)
  show ?case
  proof (cases "task (Suc (attemptsMade j)) (data j)")
    case (Inr r)
    then have "task (Suc (attemptsMade j)) (data j) = Inr (returnvalue (run_job m task j))"
      by (simp add: run_job_Inr)
    then show ?thesis by blast
  next
    case (Inl e)
    show ?thesis
    proof (cases "Suc (attemptsMade j) < m")
      case True
      with Inl step show ?thesis by (simp add: run_job_Inl_retry)
    next
      case False
      with Inl step.prems show ?thesis by (simp add: run_job_Inl_last)
    qed
  qed
qed

lemma run_job_not_completed:
  "jstate (run_job m task j) \<noteq> Completed \<Longrightarrow>
   returnvalue (run_job m task j) = returnvalue j"
proof (induction j rule: run_job_retry_induct [where task = task and m = m])
  case (step j)
  show ?case
  proof (cases "task (Suc (attemptsMade j)) (data j)")
    case (Inr r)
    with step.prems show ?thesis by (simp add: run_job_Inr)
  next
    case (Inl e)
    show ?thesis
    proof (cases "Suc (attemptsMade j) < m")
      case True
      with Inl step show ?thesis by (simp add: run_job_Inl_retry)
    next
      case False
      with Inl show ?thesis by (simp add: run_job_Inl_last claim_def)
    qed
  qed
qed

lemma run_job_same_failure:
  "(\<And>k. task k (data j) = Inl e) \<Longrightarrow>
   failedReason (run_job m task j) = JStr (message e)"
proof (induction j rule: run_job_retry_induct [where task = task and m = m])
  case (step j)
  have here: "task (Suc (attemptsMade j)) (data j) = Inl e" by (rule step.prems)
  show ?case
  proof (cases "Suc (attemptsMade j) < m")
    case True
    with here step show ?thesis by (simp add: run_job_Inl_retry)
  next
    case False
    with here show ?thesis by (simp add: run_job_Inl_last)
  qed
qed

lemma run_job_completed_within:
  "jstate (run_job m task j) = Completed \<Longrightarrow>
   \<exists>k. attemptsMade j < k \<and> k \<le> max (Suc (attemptsMade j)) m
       \<and> task k (data j) = Inr (returnvalue (run_job m task j))"
proof (induction j rule: run_job_retry_induct [where task = task and m = m])
  case (step j)
  show ?case
  proof (cases "task (Suc (attemptsMade j)) (data j)")
    case (Inr r)
    then have "task (Suc (attemptsMade j)) (data j) = Inr (returnvalue (run_job m task j))"
      by (simp add: run_job_Inr)
    then show ?thesis by (intro exI [of _ "Suc (attemptsMade j)"]) simp
  next
    case (Inl e)
    show ?thesis
    proof (cases "Suc (attemptsMade j) < m")
      case True
      with Inl step.prems have "jstate (run_job m task (retried j)) = Completed"
        by (simp add: run_job_Inl_retry)
      from step.IH [OF Inl True this] obtain k where
        "Suc (attemptsMade j) < k" "k \<le> max (Suc (Suc (attemptsMade j))) m"
        "task k (data j) = Inr (returnvalue (run_job m task (retried j)))"
        by auto
      with Inl True show ?thesis
        by (intro exI [of _ k]) (simp add: run_job_Inl_retry)
    next
      case False
      with Inl step.prems show ?thesis by (simp add: run_job_Inl_last)
    qed
  qed
qed

lemma run_job_failed_attempts:
  "jstate (run_job m task j) = Failed \<Longrightarrow>
   attemptsMade (run_job m task j) = max (Suc (attemptsMade j)) m"
proof (induction j rule: run_job_retry_induct [where task = task and m = m])
  case (step j)
  show ?case
  proof (cases "task (Suc (attemptsMade j)) (data j)")
    case (Inr r)
    with step.prems show ?thesis by (simp add: run_job_Inr)
  next
    case (Inl e)
    show ?thesis
    proof (cases "Suc (attemptsMade j) < m")
      case True
      with Inl step show ?thesis by (simp add: run_job_Inl_retry)
    next
      case False
      with Inl show ?thesis by (simp add: run_job_Inl_last)
    qed
  qed
qed

lemma run_job_fails_within:
  assumes "\<And>k. attemptsMade j < k \<Longrightarrow> k \<le> max (Suc (attemptsMade j)) m \<Longrightarrow> \<exists>e. task k (data j) = Inl e"
  shows "jstate (run_job m task j) = Failed"
proof (rule ccontr)
  assume "jstate (run_job m task j) \<noteq> Failed"
  with run_job_terminal [of m task j] have "jstate (run_job m task j) = Completed" by simp
  from run_job_completed_within [OF this] assms show False by fastforce
qed

subsection \<open>The generation steps\<close>

lemma content_processor_obj:
  "content_processor env (JObj kvs) =
     andThen (generateBlogPost env (obj_member kvs ''topic'') (obj_member kvs ''keywords'')
                (obj_member kvs ''wordCount'')) (\<lambda>content.
     andThen (generateSEOMetadata env content) (\<lambda>seo.
     andThen (generateFAQSchema env content) (\<lambda>faqs.
     Inr (generated_content (obj_member kvs ''contentId'') (obj_member kvs ''topic'')
            content seo faqs))))"
  by (simp add: content_processor_def generated_content_def)

lemma content_processor_Inr:
  assumes "content_processor env (JObj kvs) = Inr r"
  shows "\<exists>content seo faqs.
     generateBlogPost env (obj_member kvs ''topic'') (obj_member kvs ''keywords'')
       (obj_member kvs ''wordCount'') = Inr content
     \<and> generateSEOMetadata env content = Inr seo
     \<and> generateFAQSchema env content = Inr faqs
     \<and> r = generated_content (obj_member kvs ''contentId'') (obj_member kvs ''topic'')
             content seo faqs"
  using assms by (auto simp: content_processor_obj andThen_def split: sum.splits)

lemma content_processor_step_fails:
  assumes "some_step_fails env (obj_member kvs ''topic'') (obj_member kvs ''keywords'')
             (obj_member kvs ''wordCount'')"
  shows "\<exists>e. content_processor env (JObj kvs) = Inl e"
  using assms
  by (auto simp: content_processor_obj some_step_fails_def andThen_def split: sum.splits)

lemma generateSEOMetadata_Inr:
  assumes "generateSEOMetadata env content = Inr v"
  shows "\<exists>c cs. chat_completions_create env (seo_request content) = Inr (c # cs)
           \<and> JSON_parse env (str_or c ''{}'') = Inr v"
  using assms
  by (auto simp: generateSEOMetadata_def first_choice_def andThen_def
           split: sum.splits list.splits)

lemma generateFAQSchema_Inr:
  assumes "generateFAQSchema env content = Inr v"
  shows "\<exists>c cs parsed faqs. chat_completions_create env (faq_request content) = Inr (c # cs)
           \<and> JSON_parse env (str_or c empty_faqs_document) = Inr parsed
           \<and> get_prop parsed ''faqs'' = Inr faqs
           \<and> v = js_or faqs (JArr [])"
  using assms
  by (auto simp: generateFAQSchema_def first_choice_def andThen_def
           split: sum.splits list.splits)

subsection \<open>The concrete environments\<close>

lemmas sample_eval =
  generateBlogPost_def generateSEOMetadata_def generateFAQSchema_def
  blog_request_def seo_request_def faq_request_def first_choice_def str_or_def js_or_def
  sample_env_def sample_chat_def JSON_parse_of_def sample_documents_def
  empty_faqs_document_def seo_document_def faq_document_def quoted_def dq_def
  obj_member_def generation_fields_def

lemma sample_seo_null:
  "generateSEOMetadata (sample_env None None) ''<p>Hello</p>'' = Inr (JObj [])"
  by (simp add: sample_eval)

lemma sample_processor_null:
  "content_processor (sample_env None None) (JObj generation_fields) =
     Inr (generated_content (JStr ''c-1'') (JStr ''AI in Healthcare'') ''<p>Hello</p>''
            (JObj []) (JArr []))"
  by (simp add: content_processor_obj sample_eval)

lemma sample_processor_good:
  "content_processor (sample_env (Some seo_document) (Some faq_document)) (JObj generation_fields) =
     Inr (generated_content (JStr ''c-1'') (JStr ''AI in Healthcare'') ''<p>Hello</p>''
            (JObj [(''title'', JStr ''AI in Healthcare''),
               (''description'', JStr ''How AI helps patients''),
               (''tags'', JArr [JStr ''ai'', JStr ''health''])])
         (JArr [JObj [(''question'', JStr ''What is AI?''),
                                      (''answer'', JStr ''Software that learns.'')]]))"
  by (simp add: content_processor_obj sample_eval)

lemma sample_fails: "some_step_fails (sample_env (Some ''not json'') None) (obj_member generation_fields ''topic'')
   (obj_member generation_fields ''keywords'') (obj_member generation_fields ''wordCount'')"
  by (simp add: some_step_fails_def sample_eval)

subsection \<open>The pool\<close>

lemmas pool_eval =
  run_pool_def empty_pool_def content_worker_opts_def publish_worker_opts_def
  can_start_def window_open_def window_count_def active_count_def new_job_def claim_def
  settle_job_def settle_def show_nat.simps digit_char_def

lemma active_count_claim_first: "active_count (claim_first js) \<le> Suc (active_count js)"
  by (induction js) (auto simp: active_count_def claim_def)

lemma active_count_settle_job: "active_count (settle_job m i out js) \<le> active_count js"
  by (induction js) (auto simp: active_count_def settle_job_def settle_def split: sum.splits)

lemma active_count_enqueue: "active_count (js @ [new_job i n d]) = active_count js"
  by (simp add: active_count_def new_job_def)

lemma pool_step_active:
  assumes "active_count (pool_jobs p) \<le> concurrency opts"
  shows "active_count (pool_jobs (pool_step opts m p ev)) \<le> concurrency opts"
proof (cases ev)
  case (Enqueue n d)
  with assms show ?thesis by (simp add: active_count_enqueue)
next
  case (Advance d)
  with assms show ?thesis by simp
next
  case Start
  show ?thesis
  proof (cases "can_start opts p")
    case True
    then have "Suc (active_count (pool_jobs p)) \<le> concurrency opts"
      by (simp add: can_start_def)
    with active_count_claim_first [of "pool_jobs p"] Start True show ?thesis by simp
  next
    case False
    with assms Start show ?thesis by simp
  qed
next
  case (Finish i out)
  with assms active_count_settle_job [of m i out "pool_jobs p"] show ?thesis by simp
qed

lemma foldl_pool_step_active:
  "active_count (pool_jobs p) \<le> concurrency opts \<Longrightarrow>
   active_count (pool_jobs (foldl (pool_step opts m) p evs)) \<le> concurrency opts"
  by (induction evs arbitrary: p) (simp_all add: pool_step_active)

lemma length_filter_mono:
  "(\<And>x. x \<in> set xs \<Longrightarrow> P x \<Longrightarrow> Q x) \<Longrightarrow> length (filter P xs) \<le> length (filter Q xs)"
  by (induction xs) auto

text \<open>
  If every start was admitted with fewer than \<open>mx\<close> earlier starts in the window that
  ends at it, then no window of that length, wherever it lies, holds more than \<open>mx\<close>
  starts: the starts in a window all lie in the window that ends at the newest of them.
\<close>

lemma admitted_window:
  "admitted mx duration ss \<Longrightarrow>
   length (filter (\<lambda>s. t \<le> s \<and> s < t + duration) ss) \<le> mx"
proof (induction ss)
  case Nil
  then show ?case by simp
next
  case (Cons s ss)
  show ?case
  proof (cases "t \<le> s \<and> s < t + duration")
    case True
    have "length (filter (\<lambda>x. t \<le> x \<and> x < t + duration) ss)
            \<le> length (filter (\<lambda>x. s < x + duration) ss)"
      using True by (intro length_filter_mono) auto
    also have "\<dots> < mx" using Cons.prems by (simp add: window_count_def)
    finally show ?thesis using True by simp
  next
    case False
    with Cons show ?thesis by auto
  qed
qed

lemma pool_step_admitted:
  assumes "limiter opts = Some (mx, duration)" "admitted mx duration (starts p)"
  shows "admitted mx duration (starts (pool_step opts m p ev))"
  using assms by (cases ev) (auto simp: can_start_def window_open_def)

lemma foldl_pool_step_admitted:
  "limiter opts = Some (mx, duration) \<Longrightarrow> admitted mx duration (starts p) \<Longrightarrow>
   admitted mx duration (starts (foldl (pool_step opts m) p evs))"
  by (induction evs arbitrary: p) (simp_all add: pool_step_admitted)

subsection \<open>The publishing steps\<close>

lemma publish_processor_obj:
  assumes "get_prop (obj_member kvs ''seo'') ''title'' = Inr title"
      and "get_prop (obj_member kvs ''seo'') ''description'' = Inr description"
  shows "publish_processor env (JObj kvs) =
     thenCall (createPost env (post_data kvs title description)) (\<lambda>post.
     thenCall (if truthy (obj_member kvs ''scheduleDate'')
               then thenCall (pure (get_prop post ''id'')) (\<lambda>postId.
                      schedulePost env postId (obj_member kvs ''scheduleDate''))
               else pure (Inr JUndefined)) (\<lambda>scheduled.
     thenCall (pure (get_prop post ''id'')) (\<lambda>postId.
     thenCall (pure (get_prop post ''link'')) (\<lambda>link.
     pure (Inr (publish_outcome env postId link))))))"
  using assms by (simp add: publish_processor_def post_data_def publish_outcome_def)

lemma publish_processor_seo_read:
  assumes "publish_processor env (JObj kvs) = (calls, Inr r)"
  shows "\<exists>title description.
           get_prop (obj_member kvs ''seo'') ''title'' = Inr title
           \<and> get_prop (obj_member kvs ''seo'') ''description'' = Inr description"
proof (cases "get_prop (obj_member kvs ''seo'') ''title''")
  case (Inl e)
  with assms show ?thesis by (simp add: publish_processor_def)
next
  case title: (Inr title)
  show ?thesis
  proof (cases "get_prop (obj_member kvs ''seo'') ''description''")
    case (Inl e)
    with assms title show ?thesis by (simp add: publish_processor_def)
  next
    case (Inr description)
    with title show ?thesis by simp
  qed
qed

lemma publish_without_schedule:
  assumes title: "get_prop (obj_member kvs ''seo'') ''title'' = Inr title"
      and description: "get_prop (obj_member kvs ''seo'') ''description'' = Inr description"
      and unscheduled: "\<not> truthy (obj_member kvs ''scheduleDate'')"
      and result: "publish_processor env (JObj kvs) = (calls, Inr r)"
  shows "\<exists>post postId link.
           calls = [Post ''/posts'' (post_data kvs title description)]
           \<and> client_post env ''/posts'' (post_data kvs title description) = Inr post
           \<and> get_prop post ''id'' = Inr postId \<and> get_prop post ''link'' = Inr link
           \<and> r = publish_outcome env postId link"
proof (cases "client_post env ''/posts'' (post_data kvs title description)")
  case (Inl e)
  with result show ?thesis
    by (simp add: publish_processor_obj [OF title description] createPost_def)
next
  case post: (Inr post)
  show ?thesis
  proof (cases "get_prop post ''id''")
    case (Inl e)
    with result post unscheduled show ?thesis
      by (simp add: publish_processor_obj [OF title description] createPost_def pure_def)
  next
    case postId: (Inr postId)
    show ?thesis
    proof (cases "get_prop post ''link''")
      case (Inl e)
      with result post postId unscheduled show ?thesis
        by (simp add: publish_processor_obj [OF title description] createPost_def pure_def)
    next
      case (Inr link)
      with result post postId unscheduled show ?thesis
        by (auto simp: publish_processor_obj [OF title description] createPost_def pure_def)
    qed
  qed
qed

lemma publish_schedule_fails:
  assumes title: "get_prop (obj_member kvs ''seo'') ''title'' = Inr title"
      and description: "get_prop (obj_member kvs ''seo'') ''description'' = Inr description"
      and scheduled: "truthy (obj_member kvs ''scheduleDate'')"
      and post: "client_post env ''/posts'' (post_data kvs title description) = Inr post"
      and postId: "get_prop post ''id'' = Inr postId"
      and fails: "schedulePost env postId (obj_member kvs ''scheduleDate'') = (scheduling, Inl e)"
  shows "publish_processor env (JObj kvs) =
           (Post ''/posts'' (post_data kvs title description) # scheduling, Inl e)"
  using scheduled post postId fails
  by (simp add: publish_processor_obj [OF title description] createPost_def)

lemmas publish_eval =
  sample_env_def put_fails_env_def sample_post_def sample_date_def publish_fields_def
  obj_member_def post_data_def schedule_data_def publish_outcome_def js_or_def
  show_int_def show_nat.simps digit_char_def

lemma run_publish_job_Inr:
  "publish_processor env (JObj kvs) = (calls, Inr r) \<Longrightarrow>
   run_publish_job m (always env) i kvs =
     (claim (new_job i ''publish'' (JObj kvs)))\<lparr>jstate := Completed, returnvalue := r\<rparr>"
  unfolding run_publish_job_def by (rule run_job_Inr) (simp add: new_job_def)

lemma run_publish_job_Inl:
  assumes "publish_processor env (JObj kvs) = (calls, Inl e)"
  shows "jstate (run_publish_job m (always env) i kvs) = Failed
     \<and> failedReason (run_publish_job m (always env) i kvs) = JStr (message e)
     \<and> returnvalue (run_publish_job m (always env) i kvs) = JNull"
proof -
  let ?task = "\<lambda>k d. snd (publish_processor env d)"
  let ?j = "new_job i ''publish'' (JObj kvs)"
  have always: "\<And>k. ?task k (data ?j) = Inl e"
    using assms by (simp add: new_job_def)
  have failed: "jstate (run_job m ?task ?j) = Failed"
    by (rule run_job_fails_within) (simp add: always)
  moreover have "failedReason (run_job m ?task ?j) = JStr (message e)"
    by (rule run_job_same_failure) (rule always)
  moreover have "returnvalue (run_job m ?task ?j) = JNull"
    using run_job_not_completed [of m ?task ?j] failed by (simp add: new_job_def)
  ultimately show ?thesis by (simp add: run_publish_job_def)
qed

lemma sample_publish_scheduled:
  "publish_processor put_fails_env
     (JObj (publish_fields (JStr ''publish'') (JStr ''2024-12-25T10:00:00Z''))) =
   ([Post ''/posts''
       (JObj [(''title'', JStr ''AI in Healthcare''), (''content'', JStr ''<p>Hello</p>''),
              (''excerpt'', JStr ''How AI helps patients''), (''status'', JStr ''publish'')]),
     Put ''/posts/42''
       (JObj [(''status'', JStr ''future''), (''date'', JStr ''2024-12-25T10:00:00.000Z'')])],
    Inl (RemoteError ''Request failed with status code 500''))"
  by (simp add: publish_processor_def createPost_def schedulePost_def publish_eval)

lemma sample_publish_now:
  "publish_processor (sample_env None None) (JObj (publish_fields (JStr ''publish'') JUndefined)) =
   ([Post ''/posts''
       (JObj [(''title'', JStr ''AI in Healthcare''), (''content'', JStr ''<p>Hello</p>''),
              (''excerpt'', JStr ''How AI helps patients''), (''status'', JStr ''publish'')])],
    Inr (JObj [(''wordpressId'', JNum 42),
               (''wordpressUrl'', JStr ''https://blog.example.com/?p=42''),
               (''publishedAt'', JStr ''2024-12-20T08:00:00.000Z'')]))"
  by (simp add: publish_processor_def createPost_def publish_eval pure_def)


subsection \<open>The routes and the sample jobs\<close>

lemma str_or_case:
  "str_or c d = (case c of None \<Rightarrow> d | Some s \<Rightarrow> if s = [] then d else s)"
  by (simp add: str_or_def)

lemma publish_post_obj:
  "publish_post q (JObj kvs) =
     (if \<not> truthy (obj_member kvs ''content'') \<or> \<not> truthy (obj_member kvs ''seo'')
      then (json 400 [(''error'', JStr ''Missing required fields: content, seo'')], q)
      else if connected q
      then (json 200 [(''jobId'', JStr (show_nat (Suc (length (jobs q))))),
                      (''status'', JStr ''publishing''),
                      (''message'', JStr ''Publishing started'')],
            q\<lparr>jobs := jobs q @
                 [new_job (show_nat (Suc (length (jobs q)))) ''publish''
                    (JObj [(''content'', obj_member kvs ''content''),
                           (''seo'', obj_member kvs ''seo''),
                           (''status'', js_or (obj_member kvs ''status'') (JStr ''draft'')),
                           (''scheduleDate'', obj_member kvs ''scheduleDate'')])]\<rparr>)
      else (json 500 [(''error'', JStr ''Failed to publish content'')], q))"
  by (simp add: publish_post_def catch500_def Queue_add_def Let_def new_job_def)

lemma content_generate_obj:
  "content_generate q uuid (JObj kvs) =
     (if \<not> truthy (obj_member kvs ''topic'') \<or> \<not> truthy (obj_member kvs ''keywords'')
         \<or> \<not> truthy (obj_member kvs ''wordCount'')
      then (json 400
              [(''error'', JStr ''Missing required fields: topic, keywords, wordCount'')], q)
      else if connected q
      then (json 200 [(''jobId'', JStr (show_nat (Suc (length (jobs q))))),
                      (''contentId'', JStr uuid), (''status'', JStr ''processing''),
                      (''message'', JStr ''Content generation started'')],
            q\<lparr>jobs := jobs q @
                 [new_job (show_nat (Suc (length (jobs q)))) ''generate''
                    (JObj [(''contentId'', JStr uuid), (''topic'', obj_member kvs ''topic''),
                           (''keywords'', obj_member kvs ''keywords''),
                           (''wordCount'', parseInt (obj_member kvs ''wordCount''))])]\<rparr>)
      else (json 500 [(''error'', JStr ''Failed to start content generation'')], q))"
  by (simp add: content_generate_def catch500_def Queue_add_def Let_def new_job_def)

lemma parseInt_abc: "parseInt (JStr ''abc'') = JNaN"
  by (simp add: parseInt_def parseInt_string_def digit_value_def is_space_def)

lemma sample_job_null:
  "run_generation_job 1 (always (sample_env None None)) ''1'' generation_fields =
     (claim (new_job ''1'' ''generate'' (JObj generation_fields)))
       \<lparr>jstate := Completed,
        returnvalue := generated_content (JStr ''c-1'') (JStr ''AI in Healthcare'')
                         ''<p>Hello</p>'' (JObj []) (JArr [])\<rparr>"
  unfolding run_generation_job_def
  by (rule run_job_Inr) (simp add: new_job_def sample_processor_null)

lemma sample_job_good:
  "run_generation_job 1 (always (sample_env (Some seo_document) (Some faq_document))) ''1''
       generation_fields =
     (claim (new_job ''1'' ''generate'' (JObj generation_fields)))
       \<lparr>jstate := Completed,
        returnvalue := generated_content (JStr ''c-1'') (JStr ''AI in Healthcare'')
           ''<p>Hello</p>''
           (JObj [(''title'', JStr ''AI in Healthcare''),
                  (''description'', JStr ''How AI helps patients''),
                  (''tags'', JArr [JStr ''ai'', JStr ''health''])])
           (JArr [JObj [(''question'', JStr ''What is AI?''),
                        (''answer'', JStr ''Software that learns.'')]])\<rparr>"
  unfolding run_generation_job_def
  by (rule run_job_Inr) (simp add: new_job_def sample_processor_good)

lemma json_status [simp]: "status_code (json code kvs) = code"
  by (simp add: json_def)

lemma generateBlogPost_array:
  "generateBlogPost env topic (JArr xs) wordCount =
     andThen (chat_completions_create env
                (blog_request wordCount topic
                   (join '', ''
                      (map (\<lambda>x. if x = JUndefined \<or> x = JNull then [] else ToString x) xs))))
       (\<lambda>choices. andThen (first_choice choices) (\<lambda>c. Inr (str_or c [])))"
  by (simp add: generateBlogPost_def)

lemmas route_eval =
  publish_post_obj content_generate_obj empty_queue_def publish_fields_def generate_body_def
  obj_member_def js_or_def new_job_def show_nat.simps digit_char_def

section \<open>The claims\<close>

text \<open>
  C5.  For every generation job, the failure of any of the three steps (draft, SEO
  metadata, FAQ) fails the whole job, and no partial result is ever stored.  A job whose
  every attempt has a failing step ends failed, after its last attempt, with no result;
  and whatever happens, the stored result is either absent or the complete object built
  from the outputs of all three steps of one and the same attempt.
\<close>

theorem generation_job_all_or_nothing:
  "((\<forall>k. 1 \<le> k \<and> k \<le> max 1 m \<longrightarrow>
        some_step_fails (envs k) (obj_member kvs ''topic'') (obj_member kvs ''keywords'')
          (obj_member kvs ''wordCount''))
     \<longrightarrow> jstate (run_generation_job m envs i kvs) = Failed
         \<and> returnvalue (run_generation_job m envs i kvs) = JNull
         \<and> attemptsMade (run_generation_job m envs i kvs) = max 1 m)
   \<and> (returnvalue (run_generation_job m envs i kvs) = JNull
       \<or> (jstate (run_generation_job m envs i kvs) = Completed
           \<and> (\<exists>k content seo faqs.
                 generateBlogPost (envs k) (obj_member kvs ''topic'')
                   (obj_member kvs ''keywords'') (obj_member kvs ''wordCount'') = Inr content
                 \<and> generateSEOMetadata (envs k) content = Inr seo
                 \<and> generateFAQSchema (envs k) content = Inr faqs
                 \<and> returnvalue (run_generation_job m envs i kvs) =
                     generated_content (obj_member kvs ''contentId'')
                       (obj_member kvs ''topic'') content seo faqs)))"
proof (intro conjI impI)
  let ?task = "\<lambda>k. content_processor (envs k)"
  let ?j = "new_job i ''generate'' (JObj kvs)"
  assume fails: "\<forall>k. 1 \<le> k \<and> k \<le> max 1 m \<longrightarrow>
        some_step_fails (envs k) (obj_member kvs ''topic'') (obj_member kvs ''keywords'')
          (obj_member kvs ''wordCount'')"
  have "jstate (run_job m ?task ?j) = Failed"
  proof (rule run_job_fails_within)
    fix k
    assume "attemptsMade ?j < k" "k \<le> max (Suc (attemptsMade ?j)) m"
    then have "1 \<le> k \<and> k \<le> max 1 m" by (simp add: new_job_def)
    with fails show "\<exists>e. content_processor (envs k) (data ?j) = Inl e"
      by (simp add: new_job_def content_processor_step_fails)
  qed
  then show "jstate (run_generation_job m envs i kvs) = Failed"
    and "returnvalue (run_generation_job m envs i kvs) = JNull"
    and "attemptsMade (run_generation_job m envs i kvs) = max 1 m"
    using run_job_not_completed [of m ?task ?j] run_job_failed_attempts [of m ?task ?j]
    by (simp_all add: run_generation_job_def new_job_def)
next
  let ?task = "\<lambda>k. content_processor (envs k)"
  let ?j = "new_job i ''generate'' (JObj kvs)"
  show "returnvalue (run_generation_job m envs i kvs) = JNull
       \<or> (jstate (run_generation_job m envs i kvs) = Completed
           \<and> (\<exists>k content seo faqs.
                 generateBlogPost (envs k) (obj_member kvs ''topic'')
                   (obj_member kvs ''keywords'') (obj_member kvs ''wordCount'') = Inr content
                 \<and> generateSEOMetadata (envs k) content = Inr seo
                 \<and> generateFAQSchema (envs k) content = Inr faqs
                 \<and> returnvalue (run_generation_job m envs i kvs) =
                     generated_content (obj_member kvs ''contentId'')
                       (obj_member kvs ''topic'') content seo faqs))"
  proof (cases "jstate (run_job m ?task ?j) = Completed")
    case True
    from run_job_completed [OF True] obtain k where
      "content_processor (envs k) (JObj kvs) = Inr (returnvalue (run_job m ?task ?j))"
      by (auto simp: new_job_def)
    from content_processor_Inr [OF this] True show ?thesis
      unfolding run_generation_job_def by blast
  next
    case False
    from run_job_not_completed [OF False] show ?thesis
      by (simp add: run_generation_job_def new_job_def)
  qed
qed

theorem generation_job_all_or_nothing_witness:
  "jstate (run_generation_job 2 (always (sample_env (Some ''not json'') None)) ''1''
             generation_fields) = Failed
   \<and> returnvalue (run_generation_job 2 (always (sample_env (Some ''not json'') None)) ''1''
                    generation_fields) = JNull
   \<and> attemptsMade (run_generation_job 2 (always (sample_env (Some ''not json'') None)) ''1''
                     generation_fields) = 2"
  using generation_job_all_or_nothing
          [of 2 "always (sample_env (Some ''not json'') None)" generation_fields "''1''"]
        sample_fails
  by simp

text \<open>
  C8.  At every moment at most \<open>concurrency\<close> jobs of one queue are active: two for the
  content-generation queue and one for the publishing queue, whatever is enqueued,
  started and finished, and in whatever order.
\<close>

theorem pool_concurrency_bound:
  "active_count (pool_jobs (run_pool content_worker_opts m evs)) \<le> 2
   \<and> active_count (pool_jobs (run_pool publish_worker_opts m' evs')) \<le> 1"
  using foldl_pool_step_active [of empty_pool content_worker_opts m evs]
        foldl_pool_step_active [of empty_pool publish_worker_opts m' evs']
  by (simp add: run_pool_def empty_pool_def active_count_def content_worker_opts_def
        publish_worker_opts_def)

theorem pool_concurrency_bound_witness:
  "active_count (pool_jobs (run_pool content_worker_opts 1 three_starts)) = 2
   \<and> active_count (pool_jobs (run_pool publish_worker_opts 1 three_starts)) = 1"
  using pool_concurrency_bound [of 1 three_starts 1 three_starts]
  by (simp add: pool_eval three_starts_def)

text \<open>
  C9.  For the content-generation queue, no window of 60 seconds, wherever it begins,
  contains more than 10 starts of task executions; and while the budget of the current
  window is used up a start attempt changes nothing, so the waiting jobs stay waiting
  and none of them fails.
\<close>

theorem generation_rate_limit:
  "length (filter (\<lambda>s. t \<le> s \<and> s < t + 60000)
             (starts (run_pool content_worker_opts m evs))) \<le> 10
   \<and> (\<not> window_open content_worker_opts p \<longrightarrow>
         pool_step content_worker_opts m p Start = p)"
proof -
  have "admitted 10 60000 (starts (run_pool content_worker_opts m evs))"
    unfolding run_pool_def
    by (rule foldl_pool_step_admitted) (simp_all add: content_worker_opts_def empty_pool_def)
  then show ?thesis by (simp add: admitted_window can_start_def)
qed

theorem generation_rate_limit_witness:
  "length (starts (run_pool content_worker_opts 1 burst)) = 10
   \<and> \<not> window_open content_worker_opts (run_pool content_worker_opts 1 burst)
   \<and> map jstate (pool_jobs (pool_step content_worker_opts 1
                               (run_pool content_worker_opts 1 burst) Start)) =
       [Completed, Completed, Completed, Completed, Completed, Completed, Completed,
        Completed, Completed, Completed, Waiting]"
proof -
  have closed: "\<not> window_open content_worker_opts (run_pool content_worker_opts 1 burst)"
    by (simp add: burst_def pool_eval)
  have jobs: "map jstate (pool_jobs (run_pool content_worker_opts 1 burst)) =
       [Completed, Completed, Completed, Completed, Completed, Completed, Completed,
        Completed, Completed, Completed, Waiting]"
    by (simp add: burst_def pool_eval)
  have started: "length (starts (run_pool content_worker_opts 1 burst)) = 10"
    by (simp add: burst_def pool_eval)
  from generation_rate_limit [of 0 1 burst "run_pool content_worker_opts 1 burst"] closed
  have "pool_step content_worker_opts 1 (run_pool content_worker_opts 1 burst) Start
          = run_pool content_worker_opts 1 burst"
    by simp
  with closed jobs started show ?thesis by simp
qed

text \<open>
  C1.  For a publish job whose payload has a schedule date, if the create-post call
  succeeds and \<^verbatim>\<open>schedulePost\<close> then throws, the run ends there, the job ends failed with
  no result, and its failure reason is the message of the error \<^verbatim>\<open>schedulePost\<close> threw,
  as it was thrown.  The worker adds nothing to that message.
\<close>

theorem schedule_failure_reason:
  assumes "get_prop (obj_member kvs ''seo'') ''title'' = Inr title"
      and "get_prop (obj_member kvs ''seo'') ''description'' = Inr description"
      and "truthy (obj_member kvs ''scheduleDate'')"
      and "client_post env ''/posts'' (post_data kvs title description) = Inr post"
      and "get_prop post ''id'' = Inr postId"
      and "schedulePost env postId (obj_member kvs ''scheduleDate'') = (scheduling, Inl e)"
  shows "publish_processor env (JObj kvs) =
           (Post ''/posts'' (post_data kvs title description) # scheduling, Inl e)
     \<and> jstate (run_publish_job m (always env) i kvs) = Failed
     \<and> failedReason (run_publish_job m (always env) i kvs) = JStr (message e)
     \<and> returnvalue (run_publish_job m (always env) i kvs) = JNull"
  using publish_schedule_fails [OF assms] run_publish_job_Inl [OF publish_schedule_fails [OF assms]]
  by simp

theorem schedule_failure_reason_witness:
  "schedulePost put_fails_env (JNum 42) (JStr ''2024-12-25T10:00:00Z'') =
     ([Put ''/posts/42''
         (JObj [(''status'', JStr ''future''), (''date'', JStr ''2024-12-25T10:00:00.000Z'')])],
      Inl (RemoteError ''Request failed with status code 500''))
   \<and> jstate (run_publish_job 1 (always put_fails_env) ''1''
               (publish_fields (JStr ''publish'') (JStr ''2024-12-25T10:00:00Z''))) = Failed
   \<and> failedReason (run_publish_job 1 (always put_fails_env) ''1''
                     (publish_fields (JStr ''publish'') (JStr ''2024-12-25T10:00:00Z'')))
       = JStr ''Request failed with status code 500''"
proof -
  have refused:
    "schedulePost put_fails_env (JNum 42) (JStr ''2024-12-25T10:00:00Z'') =
       ([Put ''/posts/42''
           (JObj [(''status'', JStr ''future''),
                  (''date'', JStr ''2024-12-25T10:00:00.000Z'')])],
        Inl (RemoteError ''Request failed with status code 500''))"
    by (simp add: schedulePost_def publish_eval)
  from schedule_failure_reason
          [of "publish_fields (JStr ''publish'') (JStr ''2024-12-25T10:00:00Z'')"
              "JStr ''AI in Healthcare''" "JStr ''How AI helps patients''"
              put_fails_env sample_post "JNum 42"
              "[Put ''/posts/42''
                  (JObj [(''status'', JStr ''future''),
                         (''date'', JStr ''2024-12-25T10:00:00.000Z'')])]"
              "RemoteError ''Request failed with status code 500''" 1 "''1''"]
       refused
  show ?thesis by (simp add: publish_eval)
qed

text \<open>
  C1, as stated, fails: the post is created with id 42, the scheduling call is refused
  with a status-code error, the job fails, and its failure reason does not contain the
  id of the created post.
\<close>

theorem schedule_failure_counterexample:
  "jstate (run_publish_job 1 (always put_fails_env) ''1''
             (publish_fields (JStr ''publish'') (JStr ''2024-12-25T10:00:00Z''))) = Failed
   \<and> fst (publish_processor put_fails_env
             (JObj (publish_fields (JStr ''publish'') (JStr ''2024-12-25T10:00:00Z'')))) =
       [Post ''/posts''
          (JObj [(''title'', JStr ''AI in Healthcare''), (''content'', JStr ''<p>Hello</p>''),
                 (''excerpt'', JStr ''How AI helps patients''), (''status'', JStr ''publish'')]),
        Put ''/posts/42''
          (JObj [(''status'', JStr ''future''), (''date'', JStr ''2024-12-25T10:00:00.000Z'')])]
   \<and> client_post put_fails_env ''/posts''
         (JObj [(''title'', JStr ''AI in Healthcare''), (''content'', JStr ''<p>Hello</p>''),
                (''excerpt'', JStr ''How AI helps patients''), (''status'', JStr ''publish'')])
       = Inr (JObj [(''id'', JNum 42), (''link'', JStr ''https://blog.example.com/?p=42'')])
   \<and> failedReason (run_publish_job 1 (always put_fails_env) ''1''
                     (publish_fields (JStr ''publish'') (JStr ''2024-12-25T10:00:00Z'')))
       = JStr ''Request failed with status code 500''
   \<and> \<not> str_includes ''Request failed with status code 500'' (ToString (JNum 42))"
proof -
  have created:
    "client_post put_fails_env ''/posts''
         (JObj [(''title'', JStr ''AI in Healthcare''), (''content'', JStr ''<p>Hello</p>''),
                (''excerpt'', JStr ''How AI helps patients''), (''status'', JStr ''publish'')])
       = Inr (JObj [(''id'', JNum 42), (''link'', JStr ''https://blog.example.com/?p=42'')])"
    by (simp add: publish_eval)
  have absent: "\<not> str_includes ''Request failed with status code 500'' (ToString (JNum 42))"
    by (simp add: show_int_def show_nat.simps digit_char_def)
  from run_publish_job_Inl [OF sample_publish_scheduled, of 1 "''1''"] created absent
  show ?thesis by (simp add: sample_publish_scheduled)
qed

text \<open>
  C2.  The SEO step returns a value exactly when the completion call returned a first
  choice and \<^verbatim>\<open>JSON.parse\<close> accepted its content, an absent or empty content being
  replaced by \<^verbatim>\<open>{}\<close>; the value returned is the parsed one, whatever its shape.
\<close>

theorem seo_answer_returned_unchecked:
  "generateSEOMetadata env content = Inr v \<longleftrightarrow>
     (\<exists>c cs. chat_completions_create env (seo_request content) = Inr (c # cs)
        \<and> JSON_parse env (case c of None \<Rightarrow> ''{}'' | Some s \<Rightarrow> if s = [] then ''{}'' else s)
            = Inr v)"
  by (auto simp: generateSEOMetadata_def first_choice_def andThen_def str_or_case
           split: sum.splits list.splits)

theorem seo_answer_returned_unchecked_witness:
  "generateSEOMetadata (sample_env (Some seo_document) None) ''<p>Hello</p>'' =
     Inr (JObj [(''title'', JStr ''AI in Healthcare''),
                (''description'', JStr ''How AI helps patients''),
                (''tags'', JArr [JStr ''ai'', JStr ''health''])])"
proof -
  have "chat_completions_create (sample_env (Some seo_document) None)
          (seo_request ''<p>Hello</p>'') = Inr [Some seo_document]"
    by (simp add: sample_env_def sample_chat_def seo_request_def)
  moreover have "JSON_parse (sample_env (Some seo_document) None) seo_document =
     Inr (JObj [(''title'', JStr ''AI in Healthcare''),
                (''description'', JStr ''How AI helps patients''),
                (''tags'', JArr [JStr ''ai'', JStr ''health''])])"
    by (simp add: sample_eval)
  moreover have "seo_document \<noteq> []"
    by (simp add: seo_document_def)
  ultimately show ?thesis
    using seo_answer_returned_unchecked
            [of "sample_env (Some seo_document) None" "''<p>Hello</p>''"
                "JObj [(''title'', JStr ''AI in Healthcare''),
                       (''description'', JStr ''How AI helps patients''),
                       (''tags'', JArr [JStr ''ai'', JStr ''health''])]"]
    by simp
qed

text \<open>
  C2, as stated, fails: when the model answers with no content, the step does not fail
  but returns the empty object, which lacks title, description and tags.
\<close>

theorem seo_fallback_counterexample:
  "chat_completions_create (sample_env None None) (seo_request ''<p>Hello</p>'') = Inr [None]
   \<and> generateSEOMetadata (sample_env None None) ''<p>Hello</p>'' = Inr (JObj [])
   \<and> \<not> seo_shape (JObj [])"
proof -
  have "chat_completions_create (sample_env None None) (seo_request ''<p>Hello</p>'')
          = Inr [None]"
    by (simp add: sample_env_def sample_chat_def seo_request_def)
  moreover have "\<not> seo_shape (JObj [])"
    by (simp add: seo_shape_def is_string_def obj_member_def)
  ultimately show ?thesis using sample_seo_null by simp
qed

text \<open>
  C4.  The result of a completed generation job carries, as \<^verbatim>\<open>seo\<close>, the value
  \<^verbatim>\<open>JSON.parse\<close> gave for the SEO answer of one attempt (for \<^verbatim>\<open>{}\<close> when that answer
  was absent or empty) and, as \<^verbatim>\<open>faqs\<close>, the \<^verbatim>\<open>faqs\<close> member of the parsed FAQ
  answer of the same attempt, or the empty sequence when that member is falsy.  Neither
  is inspected, so the tags and the FAQ entries are what the model's answers made them.
\<close>

theorem completed_generation_result:
  assumes "jstate (run_generation_job m envs i kvs) = Completed"
  shows "\<exists>k content c cs seo c' cs' parsed faqs.
           chat_completions_create (envs k) (seo_request content) = Inr (c # cs)
           \<and> JSON_parse (envs k) (str_or c ''{}'') = Inr seo
           \<and> chat_completions_create (envs k) (faq_request content) = Inr (c' # cs')
           \<and> JSON_parse (envs k) (str_or c' empty_faqs_document) = Inr parsed
           \<and> get_prop parsed ''faqs'' = Inr faqs
           \<and> get_prop (returnvalue (run_generation_job m envs i kvs)) ''seo'' = Inr seo
           \<and> get_prop (returnvalue (run_generation_job m envs i kvs)) ''faqs'' =
               Inr (js_or faqs (JArr []))"
proof -
  let ?task = "\<lambda>k. content_processor (envs k)"
  let ?j = "new_job i ''generate'' (JObj kvs)"
  from assms have finished: "jstate (run_job m ?task ?j) = Completed"
    by (simp add: run_generation_job_def)
  from run_job_completed [OF finished] obtain k where
    "content_processor (envs k) (JObj kvs) = Inr (returnvalue (run_job m ?task ?j))"
    by (auto simp: new_job_def)
  from content_processor_Inr [OF this] obtain content seo faqs where
    seo: "generateSEOMetadata (envs k) content = Inr seo" and
    faqs: "generateFAQSchema (envs k) content = Inr faqs" and
    result: "returnvalue (run_job m ?task ?j) =
       generated_content (obj_member kvs ''contentId'') (obj_member kvs ''topic'')
         content seo faqs"
    by blast
  from generateSEOMetadata_Inr [OF seo] obtain c cs where
    "chat_completions_create (envs k) (seo_request content) = Inr (c # cs)"
    "JSON_parse (envs k) (str_or c ''{}'') = Inr seo"
    by blast
  moreover from generateFAQSchema_Inr [OF faqs] obtain c' cs' parsed member where
    "chat_completions_create (envs k) (faq_request content) = Inr (c' # cs')"
    "JSON_parse (envs k) (str_or c' empty_faqs_document) = Inr parsed"
    "get_prop parsed ''faqs'' = Inr member" "faqs = js_or member (JArr [])"
    by blast
  moreover have "get_prop (returnvalue (run_generation_job m envs i kvs)) ''seo'' = Inr seo"
    and "get_prop (returnvalue (run_generation_job m envs i kvs)) ''faqs'' = Inr faqs"
    using result by (simp_all add: run_generation_job_def generated_content_def obj_member_def)
  ultimately show ?thesis by blast
qed

theorem completed_generation_result_witness:
  "jstate (run_generation_job 1 (always (sample_env (Some seo_document) (Some faq_document))) ''1''
             generation_fields) = Completed
   \<and> get_prop (returnvalue (run_generation_job 1
         (always (sample_env (Some seo_document) (Some faq_document))) ''1'' generation_fields))
         ''seo'' =
       Inr (JObj [(''title'', JStr ''AI in Healthcare''),
                  (''description'', JStr ''How AI helps patients''),
                  (''tags'', JArr [JStr ''ai'', JStr ''health''])])
   \<and> tags_nonempty (JObj [(''title'', JStr ''AI in Healthcare''),
                           (''description'', JStr ''How AI helps patients''),
                           (''tags'', JArr [JStr ''ai'', JStr ''health''])])
   \<and> get_prop (returnvalue (run_generation_job 1
         (always (sample_env (Some seo_document) (Some faq_document))) ''1'' generation_fields))
         ''faqs'' =
       Inr (JArr [JObj [(''question'', JStr ''What is AI?''),
                        (''answer'', JStr ''Software that learns.'')]])
   \<and> faqs_shape (JArr [JObj [(''question'', JStr ''What is AI?''),
                              (''answer'', JStr ''Software that learns.'')]])"
proof -
  have finished: "jstate (run_generation_job 1
      (always (sample_env (Some seo_document) (Some faq_document))) ''1'' generation_fields)
      = Completed"
    using sample_job_good by simp
  have shapes:
    "tags_nonempty (JObj [(''title'', JStr ''AI in Healthcare''),
                          (''description'', JStr ''How AI helps patients''),
                          (''tags'', JArr [JStr ''ai'', JStr ''health''])])"
    "faqs_shape (JArr [JObj [(''question'', JStr ''What is AI?''),
                             (''answer'', JStr ''Software that learns.'')]])"
    by (simp_all add: tags_nonempty_def faqs_shape_def faq_pair_def nonempty_string_def
          is_string_def obj_member_def)
  from completed_generation_result [OF finished] finished sample_job_good shapes
  show ?thesis
    by (simp add: generated_content_def obj_member_def)
qed

text \<open>
  C4, as stated, fails: with a model that answers the SEO request with no content the
  job completes, and the \<^verbatim>\<open>seo\<close> of its result is the empty object, which has no tags.
\<close>

theorem empty_seo_counterexample:
  "jstate (run_generation_job 1 (always (sample_env None None)) ''1'' generation_fields)
     = Completed
   \<and> get_prop (returnvalue (run_generation_job 1 (always (sample_env None None)) ''1''
                  generation_fields)) ''seo'' = Inr (JObj [])
   \<and> \<not> tags_nonempty (JObj [])"
  using sample_job_null
  by (simp add: generated_content_def obj_member_def tags_nonempty_def)

text \<open>
  C6.  For a publish job whose payload has no schedule date (or a falsy one), a run that
  succeeds has made exactly one call, the create-post call, and no scheduling call; its
  result holds the \<^verbatim>\<open>id\<close> and the \<^verbatim>\<open>link\<close> of the created post and the time of
  completion, and the job completes with that result.
\<close>

theorem publish_without_schedule_date:
  assumes "\<not> truthy (obj_member kvs ''scheduleDate'')"
      and "publish_processor env (JObj kvs) = (calls, Inr r)"
  shows "\<exists>title description post postId link.
           get_prop (obj_member kvs ''seo'') ''title'' = Inr title
           \<and> get_prop (obj_member kvs ''seo'') ''description'' = Inr description
           \<and> calls = [Post ''/posts'' (post_data kvs title description)]
           \<and> client_post env ''/posts'' (post_data kvs title description) = Inr post
           \<and> get_prop post ''id'' = Inr postId \<and> get_prop post ''link'' = Inr link
           \<and> r = publish_outcome env postId link
           \<and> run_publish_job m (always env) i kvs =
               (claim (new_job i ''publish'' (JObj kvs)))
                 \<lparr>jstate := Completed, returnvalue := publish_outcome env postId link\<rparr>"
proof -
  from publish_processor_seo_read [OF assms(2)] obtain title description where
    seo: "get_prop (obj_member kvs ''seo'') ''title'' = Inr title"
         "get_prop (obj_member kvs ''seo'') ''description'' = Inr description"
    by blast
  from publish_without_schedule [OF seo assms] obtain post postId link where
    "calls = [Post ''/posts'' (post_data kvs title description)]"
    "client_post env ''/posts'' (post_data kvs title description) = Inr post"
    "get_prop post ''id'' = Inr postId" "get_prop post ''link'' = Inr link"
    "r = publish_outcome env postId link"
    by blast
  with seo run_publish_job_Inr [OF assms(2), of m i] show ?thesis by blast
qed

theorem publish_without_schedule_date_witness:
  "publish_processor (sample_env None None)
     (JObj (publish_fields (JStr ''publish'') JUndefined)) =
   ([Post ''/posts''
       (JObj [(''title'', JStr ''AI in Healthcare''), (''content'', JStr ''<p>Hello</p>''),
              (''excerpt'', JStr ''How AI helps patients''), (''status'', JStr ''publish'')])],
    Inr (JObj [(''wordpressId'', JNum 42),
               (''wordpressUrl'', JStr ''https://blog.example.com/?p=42''),
               (''publishedAt'', JStr ''2024-12-20T08:00:00.000Z'')]))
   \<and> jstate (run_publish_job 1 (always (sample_env None None)) ''1''
               (publish_fields (JStr ''publish'') JUndefined)) = Completed
   \<and> returnvalue (run_publish_job 1 (always (sample_env None None)) ''1''
                    (publish_fields (JStr ''publish'') JUndefined)) =
       JObj [(''wordpressId'', JNum 42),
             (''wordpressUrl'', JStr ''https://blog.example.com/?p=42''),
             (''publishedAt'', JStr ''2024-12-20T08:00:00.000Z'')]"
proof -
  have unscheduled:
    "\<not> truthy (obj_member (publish_fields (JStr ''publish'') JUndefined) ''scheduleDate'')"
    by (simp add: publish_eval)
  from publish_without_schedule_date [OF unscheduled sample_publish_now, of 1 "''1''"]
  obtain postId link where
    "run_publish_job 1 (always (sample_env None None)) ''1''
         (publish_fields (JStr ''publish'') JUndefined) =
       (claim (new_job ''1'' ''publish'' (JObj (publish_fields (JStr ''publish'') JUndefined))))
         \<lparr>jstate := Completed, returnvalue := publish_outcome (sample_env None None) postId link\<rparr>"
    "JObj [(''wordpressId'', JNum 42),
               (''wordpressUrl'', JStr ''https://blog.example.com/?p=42''),
               (''publishedAt'', JStr ''2024-12-20T08:00:00.000Z'')] = publish_outcome (sample_env None None) postId link"
    by blast
  with sample_publish_now show ?thesis by simp
qed

text \<open>
  C3.  The publish route rejects a submission, with status 400 and nothing enqueued,
  exactly when its content or its seo is missing or falsy.  The status field is not
  validated: when content and seo are present and the store is reachable, a job is
  enqueued whose status is the submitted one, whatever it is, or \<^verbatim>\<open>draft\<close> when the
  submitted one is missing or falsy.
\<close>

theorem publish_status_not_validated:
  "(status_code (fst (publish_post q (JObj kvs))) = 400 \<longleftrightarrow>
      \<not> truthy (obj_member kvs ''content'') \<or> \<not> truthy (obj_member kvs ''seo''))
   \<and> (status_code (fst (publish_post q (JObj kvs))) = 400 \<longrightarrow>
        snd (publish_post q (JObj kvs)) = q)
   \<and> (truthy (obj_member kvs ''content'') \<and> truthy (obj_member kvs ''seo'') \<and> connected q
        \<longrightarrow> status_code (fst (publish_post q (JObj kvs))) = 200
            \<and> (\<exists>j. jobs (snd (publish_post q (JObj kvs))) = jobs q @ [j]
                  \<and> jstate j = Waiting
                  \<and> get_prop (data j) ''status'' =
                      Inr (if truthy (obj_member kvs ''status'') then obj_member kvs ''status''
                           else JStr ''draft'')))"
  by (simp add: publish_post_obj new_job_def obj_member_def js_or_def)

theorem publish_status_not_validated_witness:
  "status_code (fst (publish_post empty_queue
                       (JObj (publish_fields (JStr ''pending'') JUndefined)))) = 200
   \<and> status_code (fst (publish_post empty_queue
                         (JObj [(''status'', JStr ''publish'')]))) = 400
   \<and> snd (publish_post empty_queue (JObj [(''status'', JStr ''publish'')])) = empty_queue"
  using publish_status_not_validated
          [of empty_queue "publish_fields (JStr ''pending'') JUndefined"]
        publish_status_not_validated [of empty_queue "[(''status'', JStr ''publish'')]"]
  by (simp add: empty_queue_def publish_fields_def obj_member_def)

text \<open>
  C3, as stated, fails: a submission with status \<^verbatim>\<open>pending\<close>, which is neither
  \<^verbatim>\<open>draft\<close> nor \<^verbatim>\<open>publish\<close>, is answered with 200 and enqueued as a waiting job
  with that status.
\<close>

theorem publish_status_counterexample:
  "status_code (fst (publish_post empty_queue
                       (JObj (publish_fields (JStr ''pending'') JUndefined)))) = 200
   \<and> map data (jobs (snd (publish_post empty_queue
                            (JObj (publish_fields (JStr ''pending'') JUndefined))))) =
       [JObj [(''content'', JStr ''<p>Hello</p>''),
              (''seo'', JObj [(''title'', JStr ''AI in Healthcare''),
                              (''description'', JStr ''How AI helps patients'')]),
              (''status'', JStr ''pending''), (''scheduleDate'', JUndefined)]]
   \<and> map jstate (jobs (snd (publish_post empty_queue
                              (JObj (publish_fields (JStr ''pending'') JUndefined))))) =
       [Waiting]
   \<and> JStr ''pending'' \<noteq> JStr ''draft'' \<and> JStr ''pending'' \<noteq> JStr ''publish''"
  by (simp add: route_eval)

text \<open>
  C10.  The generation route validates by truthiness only.  It answers 400, and enqueues
  nothing, exactly when topic, keywords or wordCount is missing or falsy; so an empty
  topic and a wordCount of 0 are rejected.  Otherwise the job is enqueued with the topic
  and the keywords as submitted, whatever kind of value they are, and with
  \<^verbatim>\<open>parseInt(wordCount)\<close>, which is \<^verbatim>\<open>NaN\<close> for the string \<^verbatim>\<open>abc\<close>.  The draft
  step does not check the keywords either: the elements of an array, of whatever kind,
  are joined into the prompt.
\<close>

theorem generate_validates_by_truthiness:
  "(status_code (fst (content_generate q uuid (JObj kvs))) = 400 \<longleftrightarrow>
      \<not> truthy (obj_member kvs ''topic'') \<or> \<not> truthy (obj_member kvs ''keywords'')
      \<or> \<not> truthy (obj_member kvs ''wordCount''))
   \<and> (status_code (fst (content_generate q uuid (JObj kvs))) = 400 \<longrightarrow>
        snd (content_generate q uuid (JObj kvs)) = q)
   \<and> (truthy (obj_member kvs ''topic'') \<and> truthy (obj_member kvs ''keywords'')
        \<and> truthy (obj_member kvs ''wordCount'') \<and> connected q
        \<longrightarrow> status_code (fst (content_generate q uuid (JObj kvs))) = 200
            \<and> (\<exists>j. jobs (snd (content_generate q uuid (JObj kvs))) = jobs q @ [j]
                  \<and> jstate j = Waiting
                  \<and> data j =
                      JObj [(''contentId'', JStr uuid), (''topic'', obj_member kvs ''topic''),
                            (''keywords'', obj_member kvs ''keywords''),
                            (''wordCount'', parseInt (obj_member kvs ''wordCount''))]))
   \<and> status_code (fst (content_generate q uuid
                         (JObj (generate_body (JStr []) kw wc)))) = 400
   \<and> status_code (fst (content_generate q uuid
                         (JObj (generate_body tp kw (JNum 0))))) = 400
   \<and> (truthy tp \<and> truthy kw \<and> connected q \<longrightarrow>
        (\<exists>j. jobs (snd (content_generate q uuid
                           (JObj (generate_body tp kw (JStr ''abc''))))) = jobs q @ [j]
            \<and> get_prop (data j) ''wordCount'' = Inr JNaN
            \<and> get_prop (data j) ''keywords'' = Inr kw))
   \<and> generateBlogPost env tp (JArr xs) wc =
       andThen (chat_completions_create env
                  (blog_request wc tp
                     (join '', ''
                        (map (\<lambda>x. if x = JUndefined \<or> x = JNull then [] else ToString x)
                           xs))))
         (\<lambda>choices. andThen (first_choice choices) (\<lambda>c. Inr (str_or c [])))"
proof (intro conjI)
  show "generateBlogPost env tp (JArr xs) wc =
       andThen (chat_completions_create env
                  (blog_request wc tp
                     (join '', ''
                        (map (\<lambda>x. if x = JUndefined \<or> x = JNull then [] else ToString x)
                           xs))))
         (\<lambda>choices. andThen (first_choice choices) (\<lambda>c. Inr (str_or c [])))"
    by (rule generateBlogPost_array)
  show "status_code (fst (content_generate q uuid
                         (JObj (generate_body (JStr []) kw wc)))) = 400"
    by (simp add: content_generate_obj generate_body_def obj_member_def)
  show "status_code (fst (content_generate q uuid
                         (JObj (generate_body tp kw (JNum 0))))) = 400"
    by (simp add: content_generate_obj generate_body_def obj_member_def)
  show "truthy tp \<and> truthy kw \<and> connected q \<longrightarrow>
        (\<exists>j. jobs (snd (content_generate q uuid
                           (JObj (generate_body tp kw (JStr ''abc''))))) = jobs q @ [j]
            \<and> get_prop (data j) ''wordCount'' = Inr JNaN
            \<and> get_prop (data j) ''keywords'' = Inr kw)"
    by (simp add: content_generate_obj generate_body_def obj_member_def new_job_def
          parseInt_abc)
qed (simp_all add: content_generate_obj new_job_def)

theorem generate_validates_by_truthiness_witness:
  "status_code (fst (content_generate empty_queue ''u-1''
       (JObj (generate_body (JStr ''AI in Healthcare'') (JNum 5) (JStr ''abc''))))) = 200
   \<and> map data (jobs (snd (content_generate empty_queue ''u-1''
       (JObj (generate_body (JStr ''AI in Healthcare'') (JNum 5) (JStr ''abc'')))))) =
       [JObj [(''contentId'', JStr ''u-1''), (''topic'', JStr ''AI in Healthcare''),
              (''keywords'', JNum 5), (''wordCount'', JNaN)]]"
  using generate_validates_by_truthiness
          [where q = empty_queue and uuid = "''u-1''"
             and kvs = "generate_body (JStr ''AI in Healthcare'') (JNum 5) (JStr ''abc'')"
             and tp = "JStr ''AI in Healthcare''" and kw = "JNum 5"
             and wc = "JStr ''abc''" and env = "sample_env None None"
             and xs = "[JNum 1, JNull]"]
  by (auto simp add: empty_queue_def generate_body_def obj_member_def parseInt_abc)

text \<open>
  C7.  Both job queries answer 404 for an id no job has.  For a job that exists the
  content route answers with the five fields \<^verbatim>\<open>jobId\<close>, \<^verbatim>\<open>state\<close>, \<^verbatim>\<open>progress\<close>,
  \<^verbatim>\<open>result\<close>, \<^verbatim>\<open>failedReason\<close>, but the publish route leaves \<^verbatim>\<open>progress\<close> out.
\<close>

theorem job_query_shapes:
  "(Queue_getJob q i = Inr None \<longrightarrow>
      publish_get_job q i = json 404 [(''error'', JStr ''Job not found'')]
      \<and> content_get_job q i = json 404 [(''error'', JStr ''Job not found'')])
   \<and> (Queue_getJob q i = Inr (Some j) \<longrightarrow>
        body_keys (content_get_job q i) =
          [''jobId'', ''state'', ''progress'', ''result'', ''failedReason'']
        \<and> body_keys (publish_get_job q i) = [''jobId'', ''state'', ''result'', ''failedReason'']
        \<and> ''progress'' \<notin> set (body_keys (publish_get_job q i)))"
  by (simp add: publish_get_job_def content_get_job_def body_keys_def json_def)

text \<open>
  The two routes on concrete queues: each holds one job, enqueued through its own route,
  and is asked for job 1 and for job 2.
\<close>

theorem publish_job_query_omits_progress:
  "body_keys (content_get_job
      (snd (content_generate empty_queue ''u-1''
              (JObj (generate_body (JStr ''AI in Healthcare'') (JArr []) (JNum 1500))))) ''1'')
     = [''jobId'', ''state'', ''progress'', ''result'', ''failedReason'']
   \<and> body_keys (publish_get_job
      (snd (publish_post empty_queue (JObj (publish_fields (JStr ''publish'') JUndefined))))
      ''1'')
     = [''jobId'', ''state'', ''result'', ''failedReason'']
   \<and> status_code (publish_get_job
      (snd (publish_post empty_queue (JObj (publish_fields (JStr ''publish'') JUndefined))))
      ''1'') = 200
   \<and> status_code (publish_get_job
      (snd (publish_post empty_queue (JObj (publish_fields (JStr ''publish'') JUndefined))))
      ''2'') = 404
   \<and> status_code (content_get_job
      (snd (content_generate empty_queue ''u-1''
              (JObj (generate_body (JStr ''AI in Healthcare'') (JArr []) (JNum 1500))))) ''2'')
      = 404"
  using job_query_shapes
          [of "snd (publish_post empty_queue
                      (JObj (publish_fields (JStr ''publish'') JUndefined)))" "''1''"
              "new_job ''1'' ''publish''
                 (JObj [(''content'', JStr ''<p>Hello</p>''),
                        (''seo'', JObj [(''title'', JStr ''AI in Healthcare''),
                                        (''description'', JStr ''How AI helps patients'')]),
                        (''status'', JStr ''publish''), (''scheduleDate'', JUndefined)])"]
  by (simp add: route_eval publish_get_job_def content_get_job_def Queue_getJob_def
        body_keys_def json_def)

end
